theory Spec2Isabelle
  imports Complex_Main "HOL-Library.Char_ord" "HOL-Library.List_Lexorder" "HOL-Library.Multiset"
begin

section \<open>Data model\<close>

text \<open>
  Dates are milliseconds since the epoch (\<open>int\<close>). A JavaScript Number that holds an
  allowance or a usage counter is a \<open>real\<close>: the code rounds neither (the plan
  controller's \<open>toInt\<close> keeps a fraction such as 2.5), and the arithmetic of the model is
  exact, which is the arithmetic of the code's doubles on whole numbers up to \<open>2^53\<close>.
  A field that may hold \<open>null\<close> or be missing is an \<open>option\<close>. User ids are strings
  (\<open>user._id.toString()\<close>).

  Documents are read and written through Mongoose schemas in strict mode (no schema of
  the sources sets \<open>strict: false\<close>): a path that the schema does not declare reads
  \<open>undefined\<close> on a loaded document, and neither \<open>save()\<close> nor an update writes it.
  The records below hold the declared paths.

  The limits of a plan (the Plan schema, second document of models/Likes.js), with the
  read of a path of \<open>limits\<close> by its name.
\<close>

record plan_limits =
  totalMessagesAllowed :: real
  totalVideoTimeSeconds :: real
  totalAudioTimeSeconds :: real
  matchesAllowed :: real

definition limitsPath :: "plan_limits \<Rightarrow> string \<Rightarrow> real option" where
  "limitsPath limits path =
     (if path = ''totalMessagesAllowed'' then Some (totalMessagesAllowed limits)
      else if path = ''totalVideoTimeSeconds'' then Some (totalVideoTimeSeconds limits)
      else if path = ''totalAudioTimeSeconds'' then Some (totalAudioTimeSeconds limits)
      else if path = ''matchesAllowed'' then Some (matchesAllowed limits)
      else None)"

text \<open>
  A subscription document (models/Subscription.js). The usage counters are schema
  Numbers with default 0, so \<open>x || 0\<close> and \<open>x ?? 0\<close> leave them as they are.
  \<open>planLimits\<close> is \<open>planId?.limits\<close> of the populated plan, \<open>None\<close> when the plan
  is missing. The schema declares no \<open>messagesUsedToday\<close> and no \<open>lastMessageDate\<close>.
\<close>

record subscription =
  userId :: string
  endDate :: int
  messagesUsedTotal :: real
  messagesAllowed :: "real option"
  audioTimeUsedTotal :: real
  videoTimeUsedTotal :: real
  audioTimeAllowed :: "real option"
  videoTimeAllowed :: "real option"
  totalMessagesUsed :: real
  totalAudioUsed :: real
  totalVideoUsed :: real
  planLimits :: "plan_limits option"

text \<open>
  A message inside a conversation document, and the conversation document (the Chat
  model, last document of the file with the Call model). The message sub-schema declares
  \<open>from\<close>, \<open>to\<close>, \<open>message\<close>, \<open>petitionId\<close>, \<open>createdAt\<close> and \<open>replies\<close>; the
  last two are left out here. It declares no \<open>status\<close>: the \<open>status: 'sent'\<close> that the
  HTTP handler pushes with a message is not stored.
\<close>

record message =
  msgFrom :: string
  msgTo :: string
  msgText :: string
  petitionId :: string

record chat =
  chatFrom :: string
  chatTo :: string
  messages :: "message list"

text \<open>
  The document store: the documents of each collection in their natural order, so that
  \<open>findOne\<close> is the first document that matches. A loaded document is remembered with
  its position, which plays the role of \<open>_id\<close> when the document is saved.
\<close>

record db =
  subscriptions :: "subscription list"
  chats :: "chat list"

text \<open>
  The store operations that may throw while one event is handled. Each of them sits in a
  \<open>try\<close> whose \<open>catch\<close> ends the handling of the event, so at most one of them throws
  in a run: the two \<open>findOne\<close> of validateBothUsersSubscription, the \<open>findOne\<close> of
  checkMessageLimit, and in saveMessageToDB \<open>Subscription.findOne\<close>,
  \<open>subscription.save()\<close>, \<open>Chat.findOne\<close> and \<open>Chat.create\<close>; and
  \<open>chat.save()\<close>, in saveMessageToDB and in the HTTP handler (of whose store operations
  it is the only one taken to fail).
\<close>

datatype site =
    ValidateFind
  | CheckFind
  | SaveFind
  | SaveSubscription
  | SaveChatFind
  | SaveChatCreate
  | ChatSave

text \<open>
  What a handler reads from its environment: the flag
  \<open>process.env.BYPASS_SUBSCRIPTION_CHECKS === 'true'\<close>, the clock (\<open>new Date()\<close>), and
  the store operation that throws in this run, if any.
\<close>

record env =
  bypass :: bool
  now :: int
  fault :: "site option"

definition chatSaveOk :: "env \<Rightarrow> bool" where
  "chatSaveOk e = (fault e \<noteq> Some ChatSave)"

fun findOneIdx :: "('a \<Rightarrow> bool) \<Rightarrow> 'a list \<Rightarrow> nat option" where
  "findOneIdx P [] = None"
| "findOneIdx P (x # xs) = (if P x then Some 0 else map_option Suc (findOneIdx P xs))"

definition findOne :: "('a \<Rightarrow> bool) \<Rightarrow> 'a list \<Rightarrow> (nat \<times> 'a) option" where
  "findOne P xs = (case findOneIdx P xs of None \<Rightarrow> None | Some i \<Rightarrow> Some (i, xs ! i))"

text \<open>\<open>Subscription.findOne({ userId })\<close>.\<close>

definition findSubscription :: "subscription list \<Rightarrow> string \<Rightarrow> (nat \<times> subscription) option" where
  "findSubscription subs u = findOne (\<lambda>s. userId s = u) subs"

text \<open>\<open>x ?? 0\<close> on a field that may be \<open>null\<close>.\<close>

definition orZero :: "real option \<Rightarrow> real" where
  "orZero x = (case x of None \<Rightarrow> 0 | Some v \<Rightarrow> v)"

text \<open>\<open>String.prototype.trim\<close>, on the ASCII white space characters.\<close>

definition isSpace :: "char \<Rightarrow> bool" where
  "isSpace c = (c = CHR '' '' \<or> c = CHR 0x09 \<or> c = CHR 0x0A \<or> c = CHR 0x0B
     \<or> c = CHR 0x0C \<or> c = CHR 0x0D)"

definition trim :: "string \<Rightarrow> string" where
  "trim s = rev (dropWhile isSpace (rev (dropWhile isSpace s)))"

section \<open>Room identifiers (chat.namespace.js, generateRoomId)\<close>

text \<open>
  The default comparator of \<open>Array.prototype.sort\<close> compares the elements as strings,
  code unit by code unit; on a two-element array the (stable) sort swaps the elements
  exactly when the second one is strictly smaller than the first. The order on
  \<open>string\<close> used here is the lexicographic order on the character codes.
\<close>

definition sort2 :: "string \<Rightarrow> string \<Rightarrow> string list" where
  "sort2 userId1 userId2 = (if userId2 < userId1 then [userId2, userId1] else [userId1, userId2])"

definition generateRoomId :: "string \<Rightarrow> string \<Rightarrow> string" where
  "generateRoomId userId1 userId2 =
     (let sortedIds = sort2 userId1 userId2
      in ''chat_'' @ sortedIds ! 0 @ ''_'' @ sortedIds ! 1)"

section \<open>Persisting a message (Chat.findOne, Chat.create, push, chat.save)\<close>

definition findChat :: "chat list \<Rightarrow> string \<Rightarrow> string \<Rightarrow> nat option" where
  "findChat cs f t =
     findOneIdx (\<lambda>c. (chatFrom c = f \<and> chatTo c = t) \<or> (chatFrom c = t \<and> chatTo c = f)) cs"

text \<open>
  Both send paths run the same sequence: find the conversation of the pair, create an
  empty one when there is none, push the message and save. When the save throws, a
  conversation created just before stays in the store, without the message.
\<close>

definition persistMessage :: "env \<Rightarrow> chat list \<Rightarrow> message \<Rightarrow> chat list \<times> bool" where
  "persistMessage e cs m =
     (let found = findChat cs (msgFrom m) (msgTo m);
          cs1 = (case found of
                   None \<Rightarrow> cs @ [\<lparr>chatFrom = msgFrom m, chatTo = msgTo m, messages = []\<rparr>]
                 | Some _ \<Rightarrow> cs);
          i = (case found of None \<Rightarrow> length cs | Some j \<Rightarrow> j)
      in if chatSaveOk e
         then (cs1[i := (cs1 ! i)\<lparr>messages := messages (cs1 ! i) @ [m]\<rparr>], True)
         else (cs1, False))"

section \<open>The HTTP send path (chat.controller.js, sendMessage)\<close>

datatype http_response =
    Status400 string
  | Status403 string
  | Status500
  | Status200 real "real option"

text \<open>
  The request: \<open>req.user.id\<close>, \<open>req.body.to\<close>, \<open>req.body.message\<close> and the generated
  petition id. A missing \<open>to\<close> or \<open>message\<close> is the empty string (both are falsy).
\<close>

record send_req =
  reqFrom :: string
  reqTo :: string
  reqMessage :: string
  reqPetitionId :: string

text \<open>The controller's own validateBothUsersSubscription (lines 17-46).\<close>

definition validateBothUsersSubscription_http ::
  "env \<Rightarrow> subscription list \<Rightarrow> string \<Rightarrow> string \<Rightarrow> bool \<times> string" where
  "validateBothUsersSubscription_http e subs userId1 userId2 =
     (if bypass e then (True, ''Bypassed (dev mode)'')
      else case (findSubscription subs userId1, findSubscription subs userId2) of
             (Some (_, user1Sub), Some (_, user2Sub)) \<Rightarrow>
               if now e > endDate user1Sub \<or> now e > endDate user2Sub
               then (False, ''One or both subscriptions have expired'')
               else (True, [])
           | _ \<Rightarrow> (False, ''Both users must have active subscriptions to chat''))"

definition remainingOf :: "subscription \<Rightarrow> real option" where
  "remainingOf sub =
     (case messagesAllowed sub of
        None \<Rightarrow> None
      | Some allowed \<Rightarrow> Some (max 0 (allowed - messagesUsedTotal sub)))"

text \<open>
  Lines 51-106: input validation, both users' subscriptions, the sender's subscription
  and the total-period limit. The result is the response of an early return, or the loaded
  subscription (with its position) and \<open>remainingMessages\<close>. With the bypass flag set
  and no subscription for the sender, reading \<open>subscription.messagesAllowed\<close> throws and
  the handler answers 500.
\<close>

definition sendMessage_check ::
  "env \<Rightarrow> db \<Rightarrow> send_req \<Rightarrow> http_response + (nat \<times> subscription \<times> real option)" where
  "sendMessage_check e d r =
     (if reqTo r = [] then Inl (Status400 ''Recipient (to) is required'')
      else if trim (reqMessage r) = [] then Inl (Status400 ''Message text is required'')
      else let bothUsersValid =
                 validateBothUsersSubscription_http e (subscriptions d) (reqFrom r) (reqTo r)
      in if \<not> fst bothUsersValid then Inl (Status403 (snd bothUsersValid))
      else case findSubscription (subscriptions d) (reqFrom r) of
             None \<Rightarrow> if \<not> bypass e then Inl (Status403 ''No active subscription'')
                     else Inl Status500
           | Some (i, sub) \<Rightarrow>
               if \<not> bypass e \<and> now e > endDate sub then Inl (Status403 ''Subscription expired'')
               else let remainingMessages = remainingOf sub
               in if \<not> bypass e \<and> (case remainingMessages of None \<Rightarrow> False | Some rm \<Rightarrow> rm \<le> 0)
                  then Inl (Status403 ''Message limit exceeded for this subscription period'')
                  else Inr (i, sub, remainingMessages))"

definition newMessage :: "send_req \<Rightarrow> message" where
  "newMessage r = \<lparr>msgFrom = reqFrom r, msgTo = reqTo r, msgText = trim (reqMessage r),
     petitionId = reqPetitionId r\<rparr>"

text \<open>
  Lines 132-146: the in-memory document gets \<open>messagesUsedTotal + 1\<close> and
  \<open>subscription.save()\<close> writes the two modified fields of that document back.
\<close>

definition saveMessageUsage :: "subscription list \<Rightarrow> nat \<Rightarrow> subscription \<Rightarrow> subscription list" where
  "saveMessageUsage subs i sub =
     subs[i := (subs ! i)\<lparr>messagesUsedTotal := messagesUsedTotal sub,
                           totalMessagesUsed := totalMessagesUsed sub\<rparr>]"

definition sendMessage_debit :: "env \<Rightarrow> db \<Rightarrow> nat \<Rightarrow> subscription \<Rightarrow> db \<times> subscription" where
  "sendMessage_debit e d i sub =
     (if \<not> bypass e
      then let sub' = sub\<lparr>messagesUsedTotal := messagesUsedTotal sub + 1,
                           totalMessagesUsed := messagesUsedTotal sub + 1\<rparr>
           in (d\<lparr>subscriptions := saveMessageUsage (subscriptions d) i sub'\<rparr>, sub')
      else (d, sub))"

definition finalRemaining :: "real option \<Rightarrow> real option" where
  "finalRemaining remainingMessages =
     (case remainingMessages of None \<Rightarrow> None | Some rm \<Rightarrow> Some (max 0 (rm - 1)))"

text \<open>
  The whole handler. \<open>Status200 u rm\<close> is the success response with
  \<open>messagesUsedTotal = u\<close> and \<open>remainingMessages = rm\<close> (\<open>None\<close> for "Unlimited").
  The socket broadcast that follows the debit (lines 148-176) touches neither collection.
\<close>

definition sendMessage :: "env \<Rightarrow> db \<Rightarrow> send_req \<Rightarrow> db \<times> http_response" where
  "sendMessage e d r =
     (case sendMessage_check e d r of
        Inl resp \<Rightarrow> (d, resp)
      | Inr (i, sub, remainingMessages) \<Rightarrow>
          (case persistMessage e (chats d) (newMessage r) of
             (cs, False) \<Rightarrow> (d\<lparr>chats := cs\<rparr>, Status500)
           | (cs, True) \<Rightarrow>
               (case sendMessage_debit e (d\<lparr>chats := cs\<rparr>) i sub of
                  (d', sub') \<Rightarrow>
                    (d', Status200 (messagesUsedTotal sub') (finalRemaining remainingMessages)))))"

definition granted :: "http_response \<Rightarrow> bool" where
  "granted resp = (case resp of Status200 _ _ \<Rightarrow> True | _ \<Rightarrow> False)"

text \<open>The sender's usage counter as the store has it (0 when there is no document).\<close>

definition usedMessages :: "db \<Rightarrow> string \<Rightarrow> real" where
  "usedMessages d u =
     (case findSubscription (subscriptions d) u of
        None \<Rightarrow> 0
      | Some (_, sub) \<Rightarrow> messagesUsedTotal sub)"

subsection \<open>The handler between its suspension points\<close>

text \<open>
  The handler is an \<open>async\<close> function: between two \<open>await\<close>s it runs alone, at an
  \<open>await\<close> another request's handler may run. A task is a request together with what
  its handler holds in local variables (the subscription document it loaded, with the
  position of that document, and \<open>remainingMessages\<close>). One step runs a task up to a
  suspension point: the checks (lines 51-106), the persistence (lines 108-130), the debit
  (lines 132-146) and the response.
\<close>

datatype http_task =
    Start send_req
  | Checked send_req nat subscription "real option"
  | Persisted send_req nat subscription "real option"
  | Finished http_response

fun sendMessage_step :: "env \<Rightarrow> db \<Rightarrow> http_task \<Rightarrow> db \<times> http_task" where
  "sendMessage_step e d (Start r) =
     (case sendMessage_check e d r of
        Inl resp \<Rightarrow> (d, Finished resp)
      | Inr (i, sub, remainingMessages) \<Rightarrow> (d, Checked r i sub remainingMessages))"
| "sendMessage_step e d (Checked r i sub remainingMessages) =
     (case persistMessage e (chats d) (newMessage r) of
        (cs, False) \<Rightarrow> (d\<lparr>chats := cs\<rparr>, Finished Status500)
      | (cs, True) \<Rightarrow> (d\<lparr>chats := cs\<rparr>, Persisted r i sub remainingMessages))"
| "sendMessage_step e d (Persisted r i sub remainingMessages) =
     (case sendMessage_debit e d i sub of
        (d', sub') \<Rightarrow>
          (d', Finished (Status200 (messagesUsedTotal sub') (finalRemaining remainingMessages))))"
| "sendMessage_step e d (Finished resp) = (d, Finished resp)"

text \<open>
  A schedule names, step by step, the task that runs next; the tasks share the store.
\<close>

fun run_schedule :: "env \<Rightarrow> db \<Rightarrow> http_task list \<Rightarrow> nat list \<Rightarrow> db \<times> http_task list" where
  "run_schedule e d ts [] = (d, ts)"
| "run_schedule e d ts (k # ks) =
     (if k < length ts
      then (case sendMessage_step e d (ts ! k) of (d', t') \<Rightarrow> run_schedule e d' (ts[k := t']) ks)
      else run_schedule e d ts ks)"

definition taskGranted :: "http_task \<Rightarrow> bool" where
  "taskGranted t = (case t of Finished resp \<Rightarrow> granted resp | _ \<Rightarrow> False)"

text \<open>
  Requests handled one after the other, each to completion and each with its own
  environment; the result is the final store and the responses in order.
\<close>

fun sendMessages :: "db \<Rightarrow> (env \<times> send_req) list \<Rightarrow> db \<times> http_response list" where
  "sendMessages d [] = (d, [])"
| "sendMessages d ((e, r) # rs) =
     (case sendMessage e d r of
        (d', resp) \<Rightarrow> (case sendMessages d' rs of (d'', resps) \<Rightarrow> (d'', resp # resps)))"

text \<open>The number of granted sends of user \<open>u\<close> among requests and their responses.\<close>

definition grantedCount :: "string \<Rightarrow> (env \<times> send_req) list \<Rightarrow> http_response list \<Rightarrow> nat" where
  "grantedCount u rs resps =
     length (filter (\<lambda>(er, resp). reqFrom (snd er) = u \<and> granted resp) (zip rs resps))"

section \<open>Call usage (usage.controller.js)\<close>

text \<open>\<open>Subscription.findOne({ userId, endDate: { $gt: now } })\<close>.\<close>

definition getActiveSubscription :: "int \<Rightarrow> subscription list \<Rightarrow> string \<Rightarrow> subscription option" where
  "getActiveSubscription nw subs u =
     map_option snd (findOne (\<lambda>s. userId s = u \<and> endDate s > nw) subs)"

datatype quota_check = QuotaDenied string | QuotaOk real subscription

text \<open>\<open>sub.audioTimeAllowed ?? 0\<close>: a \<open>null\<close> allowance counts as 0.\<close>

definition ensureCallQuota :: "int \<Rightarrow> subscription list \<Rightarrow> string \<Rightarrow> string \<Rightarrow> quota_check" where
  "ensureCallQuota nw subs u callType =
     (case getActiveSubscription nw subs u of
        None \<Rightarrow> QuotaDenied ''NO_SUBSCRIPTION''
      | Some sub \<Rightarrow>
          let allowed = (if callType = ''audio'' then orZero (audioTimeAllowed sub)
                         else orZero (videoTimeAllowed sub));
              used = (if callType = ''audio'' then audioTimeUsedTotal sub
                      else videoTimeUsedTotal sub);
              remaining = max 0 (allowed - used)
          in if remaining \<le> 0
             then QuotaDenied (if callType = ''audio'' then ''AUDIO_LIMIT_REACHED''
                               else ''VIDEO_LIMIT_REACHED'')
             else QuotaOk remaining sub)"

datatype usage_response = Usage400 | Usage403 string | Usage200 "real option"

definition validCallType :: "string \<Rightarrow> bool" where
  "validCallType callType = (callType = ''audio'' \<or> callType = ''video'')"

definition startCallUsage :: "int \<Rightarrow> subscription list \<Rightarrow> string \<Rightarrow> string \<Rightarrow> usage_response" where
  "startCallUsage nw subs u callType =
     (if \<not> validCallType callType then Usage400
      else case ensureCallQuota nw subs u callType of
             QuotaDenied code \<Rightarrow> Usage403 code
           | QuotaOk remaining _ \<Rightarrow> Usage200 (Some remaining))"

text \<open>
  \<open>Math.max(0, Math.floor(Number(elapsedSec || 0)))\<close>; the reported duration is a
  number, \<open>None\<close> when it is missing.
\<close>

definition elapsedSecs :: "real option \<Rightarrow> real" where
  "elapsedSecs elapsedSec =
     max 0 (of_int (floor (case elapsedSec of None \<Rightarrow> 0 | Some x \<Rightarrow> x)))"

definition incCallUsage :: "string \<Rightarrow> real \<Rightarrow> subscription \<Rightarrow> subscription" where
  "incCallUsage callType secs sub =
     (if callType = ''audio''
      then sub\<lparr>audioTimeUsedTotal := audioTimeUsedTotal sub + secs,
               totalAudioUsed := totalAudioUsed sub + secs\<rparr>
      else sub\<lparr>videoTimeUsedTotal := videoTimeUsedTotal sub + secs,
               totalVideoUsed := totalVideoUsed sub + secs\<rparr>)"

text \<open>
  \<open>findOneAndUpdate({ userId }, { $inc: incField })\<close> on the first document of the user.
\<close>

definition stopCallUsage ::
  "subscription list \<Rightarrow> string \<Rightarrow> string \<Rightarrow> real option \<Rightarrow> subscription list \<times> usage_response" where
  "stopCallUsage subs u callType elapsedSec =
     (if \<not> validCallType callType then (subs, Usage400)
      else let secs = elapsedSecs elapsedSec
      in if secs > 0
         then (case findSubscription subs u of
                 Some (i, sub) \<Rightarrow> (subs[i := incCallUsage callType secs sub], Usage200 None)
               | None \<Rightarrow> (subs, Usage200 None))
         else (subs, Usage200 None))"

definition usedSeconds :: "string \<Rightarrow> subscription \<Rightarrow> real" where
  "usedSeconds callType sub =
     (if callType = ''audio'' then audioTimeUsedTotal sub else videoTimeUsedTotal sub)"

definition allowedSeconds :: "string \<Rightarrow> subscription \<Rightarrow> real option" where
  "allowedSeconds callType sub =
     (if callType = ''audio'' then audioTimeAllowed sub else videoTimeAllowed sub)"

section \<open>The chat namespace (chat.namespace.js)\<close>

subsection \<open>Process-wide tables and emitted events\<close>

text \<open>
  A JavaScript \<open>Map\<close> keeps its keys in insertion order: \<open>set\<close> replaces the value
  of a key in place or appends a new entry, \<open>delete\<close> removes the entry.
\<close>

fun mapSet :: "'k \<Rightarrow> 'v \<Rightarrow> ('k \<times> 'v) list \<Rightarrow> ('k \<times> 'v) list" where
  "mapSet k v [] = [(k, v)]"
| "mapSet k v (p # ps) = (if fst p = k then (k, v) # ps else p # mapSet k v ps)"

definition mapGet :: "('k \<times> 'v) list \<Rightarrow> 'k \<Rightarrow> 'v option" where
  "mapGet m k = map_of m k"

definition mapHas :: "('k \<times> 'v) list \<Rightarrow> 'k \<Rightarrow> bool" where
  "mapHas m k = (map_of m k \<noteq> None)"

definition mapDelete :: "'k \<Rightarrow> ('k \<times> 'v) list \<Rightarrow> ('k \<times> 'v) list" where
  "mapDelete k m = filter (\<lambda>p. fst p \<noteq> k) m"

text \<open>
  An entry of \<open>onlineUsers\<close> (the cached name and picture are left out), and the state
  of the namespace: the store, the two tables and the pending \<open>setTimeout\<close> callbacks of
  the disconnect handler, each with the time it is due and the user it removes.
\<close>

record presence =
  socketId :: string
  isOnline :: bool
  lastSeen :: int

record server =
  store :: db
  onlineUsers :: "(string \<times> presence) list"
  userRooms :: "(string \<times> string list) list"
  timers :: "(int \<times> string) list"

datatype target =
    ToSocket string
  | ToUser string
  | ToRoomExcept string string
  | BroadcastExcept string
  | ToAll

text \<open>
  The message object that the send_message handler emits (not a stored document): it
  does carry a \<open>status\<close>.
\<close>

record message_obj =
  objId :: string
  objFrom :: string
  objTo :: string
  objMessage :: string
  objStatus :: string

datatype event =
    EvError string
  | EvMessageSent message_obj
  | EvNewMessage message_obj
  | EvMessageDelivered string
  | EvMessagesRead string "string list"
  | EvCurrentOnlineUsers "string list"
  | EvUserOnline string
  | EvUserOffline string
  | EvOnlineUsers "string list"

text \<open>
  What a handler does, in the order it does it: the two checks it calls, the two writes
  of saveMessageToDB, the events it emits and the emissions it defers with
  \<open>setTimeout\<close>.
\<close>

datatype action =
    Validate
  | CheckLimit
  | Debit
  | Persist
  | Emit target event
  | SetTimeout int target event

subsection \<open>Subscription checks of the socket path\<close>

text \<open>
  validateBothUsersSubscription (lines 421-481): \<open>valid\<close>, \<open>canChat\<close> and the
  message; the \<open>remainingMessages\<close> field is only read by join_chat.
\<close>

definition validateBothUsersSubscription ::
  "env \<Rightarrow> subscription list \<Rightarrow> string \<Rightarrow> string \<Rightarrow> bool \<times> bool \<times> string" where
  "validateBothUsersSubscription e subs userId1 userId2 =
     (if bypass e then (True, True, ''Bypassed (dev mode)'')
      else if fault e = Some ValidateFind
      then (False, False, ''Failed to validate subscriptions'')
      else case (findSubscription subs userId1, findSubscription subs userId2) of
             (Some (_, user1Sub), Some (_, user2Sub)) \<Rightarrow>
               if now e > endDate user1Sub \<or> now e > endDate user2Sub
               then (False, False, ''One or both subscriptions have expired'')
               else (True, True, [])
           | _ \<Rightarrow> (False, False, ''Both users must have active subscriptions to chat''))"

datatype limit_result =
    Bypassed
  | NoActiveSubscription
  | SubscriptionExpired
  | UnlimitedMessages
  | DailyLimitReached real
  | Remaining real
  | CheckFailed

fun canSend :: "limit_result \<Rightarrow> bool" where
  "canSend Bypassed = True"
| "canSend NoActiveSubscription = False"
| "canSend SubscriptionExpired = False"
| "canSend UnlimitedMessages = True"
| "canSend (DailyLimitReached _) = False"
| "canSend (Remaining _) = True"
| "canSend CheckFailed = False"

text \<open>
  checkMessageLimit (lines 483-527). The limit it looks for is
  \<open>subscription.planId?.limits?.messagesPerDay\<close>, a path that the plan's limits do not
  have: the read is \<open>undefined\<close> and a subscription that is found and has not ended
  gets "Unlimited messages". The daily branch after it cannot be reached; there
  \<open>lastMessageDate\<close>, not a path of the schema either, differs from today's date, the
  daily count is set to 0 on the loaded document only (\<open>save()\<close> has nothing to write)
  and is compared with the limit. When \<open>findOne\<close> throws, the \<open>catch\<close> answers
  "Failed to check message limit". The store is returned as it was.
\<close>

definition checkMessageLimit ::
  "env \<Rightarrow> subscription list \<Rightarrow> string \<Rightarrow> subscription list \<times> limit_result" where
  "checkMessageLimit e subs u =
     (if bypass e then (subs, Bypassed)
      else if fault e = Some CheckFind then (subs, CheckFailed)
      else case findSubscription subs u of
             None \<Rightarrow> (subs, NoActiveSubscription)
           | Some (i, subscription) \<Rightarrow>
               if now e > endDate subscription then (subs, SubscriptionExpired)
               else (case Option.bind (planLimits subscription)
                            (\<lambda>limits. limitsPath limits ''messagesPerDay'') of
                      None \<Rightarrow> (subs, UnlimitedMessages)
                    | Some maxMessages \<Rightarrow>
                        let usedToday = 0;
                            remaining = max 0 (maxMessages - usedToday)
                        in if remaining \<le> 0 then (subs, DailyLimitReached maxMessages)
                           else (subs, Remaining remaining)))"

subsection \<open>saveMessageToDB (lines 529-591)\<close>

text \<open>
  The usage of the sender is incremented and saved first, then the message is persisted.
  The whole body is one \<open>try\<close>: whichever operation throws, the \<open>catch\<close> returns
  \<open>success: false\<close> and what was saved before stays saved, the increment included.
  \<open>messagesUsedToday\<close> is incremented on the loaded document only, the schema having no
  such path, and the \<open>remainingMessages\<close> returned for display (always "Unlimited",
  for want of a \<open>messagesPerDay\<close>) is left out. The result carries the writes that
  were made, in order. The stored message keeps the text as sent.
\<close>

definition saveMessageToDB ::
  "env \<Rightarrow> db \<Rightarrow> string \<Rightarrow> string \<Rightarrow> string \<Rightarrow> string \<Rightarrow> db \<times> bool \<times> action list" where
  "saveMessageToDB e d fromId toId msg messageId =
     (if fault e = Some SaveFind then (d, False, [])
      else let found = findSubscription (subscriptions d) fromId;
               debit = (found \<noteq> None \<and> \<not> bypass e)
      in if debit \<and> fault e = Some SaveSubscription then (d, False, [])
      else let subs1 = (case found of
                     Some (i, subscription) \<Rightarrow>
                       if \<not> bypass e
                       then (subscriptions d)[i := subscription
                              \<lparr>messagesUsedTotal := messagesUsedTotal subscription + 1,
                               totalMessagesUsed := messagesUsedTotal subscription + 1\<rparr>]
                       else subscriptions d
                   | None \<Rightarrow> subscriptions d);
          writes1 = (if debit then [Debit] else [])
      in if fault e = Some SaveChatFind
            \<or> (fault e = Some SaveChatCreate \<and> findChat (chats d) fromId toId = None)
         then (\<lparr>subscriptions = subs1, chats = chats d\<rparr>, False, writes1)
         else case persistMessage e (chats d)
                \<lparr>msgFrom = fromId, msgTo = toId, msgText = msg, petitionId = messageId\<rparr> of
           (cs, True) \<Rightarrow> (\<lparr>subscriptions = subs1, chats = cs\<rparr>, True, writes1 @ [Persist])
         | (cs, False) \<Rightarrow> (\<lparr>subscriptions = subs1, chats = cs\<rparr>, False, writes1))"

subsection \<open>The send_message handler (lines 146-225)\<close>

text \<open>
  The payload when its message is a string, with the id that \<open>uuidv4()\<close> generates for
  the message. A missing \<open>receiverId\<close> or \<open>message\<close> is the empty string.
\<close>

record send_payload =
  receiverId :: string
  messageText :: string
  messageId :: string

definition messageObj :: "string \<Rightarrow> send_payload \<Rightarrow> message_obj" where
  "messageObj uid p = \<lparr>objId = messageId p, objFrom = uid, objTo = receiverId p,
     objMessage = trim (messageText p), objStatus = ''sent''\<rparr>"

definition deliveries :: "server \<Rightarrow> string \<Rightarrow> string \<Rightarrow> send_payload \<Rightarrow> action list" where
  "deliveries st sid uid p =
     (if mapHas (onlineUsers st) (receiverId p)
      then [Emit (ToUser (receiverId p)) (EvNewMessage (messageObj uid p)),
            SetTimeout 100 (ToSocket sid) (EvMessageDelivered (messageId p))]
      else [])
     @ [Emit (ToRoomExcept (generateRoomId uid (receiverId p)) sid)
          (EvNewMessage (messageObj uid p))]"

definition send_message ::
  "env \<Rightarrow> server \<Rightarrow> string \<Rightarrow> string \<Rightarrow> send_payload \<Rightarrow> server \<times> action list" where
  "send_message e st sid uid p =
     (if receiverId p = [] \<or> trim (messageText p) = []
      then (st, [Emit (ToSocket sid) (EvError ''validation_error'')])
      else case validateBothUsersSubscription e (subscriptions (store st)) uid (receiverId p) of
        (valid, canChat, _) \<Rightarrow>
          if \<not> valid \<or> \<not> canChat
          then (st, [Validate, Emit (ToSocket sid) (EvError ''subscription_error'')])
          else case checkMessageLimit e (subscriptions (store st)) uid of
            (subs1, senderSubscription) \<Rightarrow>
              if \<not> canSend senderSubscription
              then (st\<lparr>store := (store st)\<lparr>subscriptions := subs1\<rparr>\<rparr>,
                    [Validate, CheckLimit, Emit (ToSocket sid) (EvError ''limit_exceeded'')])
              else case saveMessageToDB e ((store st)\<lparr>subscriptions := subs1\<rparr>) uid
                          (receiverId p) (messageText p) (messageId p) of
                (d2, success, writes) \<Rightarrow>
                  if \<not> success
                  then (st\<lparr>store := d2\<rparr>,
                        [Validate, CheckLimit] @ writes
                        @ [Emit (ToSocket sid) (EvError ''db_error'')])
                  else (st\<lparr>store := d2\<rparr>,
                        [Validate, CheckLimit] @ writes
                        @ [Emit (ToSocket sid) (EvMessageSent (messageObj uid p))]
                        @ deliveries st sid uid p))"

text \<open>
  The handler on any payload object whose \<open>receiverId\<close> is a user id or missing. The
  message of a payload may be missing, a string, or another value (a number, a boolean,
  an object). On such a value with a \<open>receiverId\<close> present, \<open>message?.trim()\<close>
  throws a TypeError and the \<open>catch\<close> of the handler emits \<open>send_error\<close>. Nothing
  else throws out of the handler's \<open>try\<close>: the three functions it awaits catch what
  their store operations throw, and \<open>socket.user.Name\<close>, a nested path of the user
  document, always reads as an object.
\<close>

datatype js_message = NoMessage | StringMessage string | OtherMessage

record raw_payload =
  rawReceiverId :: string
  rawMessage :: js_message
  rawMessageId :: string



subsection \<open>Read receipts (lines 255-272 and 593-610)\<close>









subsection \<open>Connection and disconnection (lines 41-85 and 380-404)\<close>

definition connection :: "int \<Rightarrow> server \<Rightarrow> string \<Rightarrow> string \<Rightarrow> server \<times> action list" where
  "connection nw st sid uid =
     (let online = mapSet uid \<lparr>socketId = sid, isOnline = True, lastSeen = nw\<rparr> (onlineUsers st);
          rooms = (if \<not> mapHas (userRooms st) uid then mapSet uid [] (userRooms st)
                   else userRooms st);
          currentOnlineUsers = map fst (filter (\<lambda>p. fst p \<noteq> uid) online)
      in (st\<lparr>onlineUsers := online, userRooms := rooms\<rparr>,
          (if length currentOnlineUsers > 0
           then [Emit (ToSocket sid) (EvCurrentOnlineUsers currentOnlineUsers)] else [])
          @ [Emit (BroadcastExcept sid) (EvUserOnline uid)]))"

text \<open>
  The disconnect handler marks the entry offline, broadcasts \<open>user_offline\<close> at once and
  defers only the removal of the entry, by 30000 ms.
\<close>

definition disconnect :: "int \<Rightarrow> server \<Rightarrow> string \<Rightarrow> string \<Rightarrow> server \<times> action list" where
  "disconnect nw st sid uid =
     (case mapGet (onlineUsers st) uid of
        Some entry \<Rightarrow>
          (st\<lparr>onlineUsers := mapSet uid (entry\<lparr>isOnline := False, lastSeen := nw\<rparr>) (onlineUsers st),
              timers := timers st @ [(nw + 30000, uid)]\<rparr>,
           [Emit (BroadcastExcept sid) (EvUserOffline uid)])
      | None \<Rightarrow> (st, []))"

text \<open>The deferred callbacks that are due at time \<open>nw\<close> run, in the order they were set.\<close>

fun fireTimers :: "int \<Rightarrow> (int \<times> string) list \<Rightarrow> server \<Rightarrow> server" where
  "fireTimers nw [] st = st"
| "fireTimers nw ((due, uid) # ts) st =
     (if due \<le> nw
      then fireTimers nw ts
             (st\<lparr>onlineUsers := mapDelete uid (onlineUsers st),
                 userRooms := mapDelete uid (userRooms st)\<rparr>)
      else fireTimers nw ts st)"

definition advance :: "int \<Rightarrow> server \<Rightarrow> server" where
  "advance nw st =
     (fireTimers nw (timers st) st)\<lparr>timers := filter (\<lambda>t. \<not> fst t \<le> nw) (timers st)\<rparr>"

datatype conn_event = Connect string string | Disconnect string string

text \<open>
  A run of the namespace: timed connection events, in order of time; before each event
  the callbacks that are due have run.
\<close>

fun chat_run :: "server \<Rightarrow> (int \<times> conn_event) list \<Rightarrow> server \<times> action list" where
  "chat_run st [] = (st, [])"
| "chat_run st ((nw, ev) # evs) =
     (case (case ev of Connect sid uid \<Rightarrow> connection nw (advance nw st) sid uid
                     | Disconnect sid uid \<Rightarrow> disconnect nw (advance nw st) sid uid) of
        (st1, acts1) \<Rightarrow> (case chat_run st1 evs of (st2, acts2) \<Rightarrow> (st2, acts1 @ acts2)))"

definition offlineBroadcasts :: "string \<Rightarrow> action list \<Rightarrow> action list" where
  "offlineBroadcasts uid acts =
     filter (\<lambda>a. case a of Emit _ (EvUserOffline u) \<Rightarrow> u = uid | _ \<Rightarrow> False) acts"

section \<open>The presence namespace (presence.namespace.js)\<close>

text \<open>
  \<open>onlineUsers\<close> maps a user to the time of the last connection, \<open>userSockets\<close> to the
  set of the user's socket ids (a list without repetition, in insertion order).
\<close>

record presence_ns =
  pOnlineUsers :: "(string \<times> int) list"
  pUserSockets :: "(string \<times> string list) list"

definition setAdd :: "'a \<Rightarrow> 'a list \<Rightarrow> 'a list" where
  "setAdd x xs = (if x \<in> set xs then xs else xs @ [x])"

definition addUserOnline :: "int \<Rightarrow> presence_ns \<Rightarrow> string \<Rightarrow> string \<Rightarrow> presence_ns" where
  "addUserOnline nw ns sid uid =
     (let sockets0 = (if \<not> mapHas (pUserSockets ns) uid then mapSet uid [] (pUserSockets ns)
                      else pUserSockets ns);
          sockets1 = mapSet uid (setAdd sid (case mapGet sockets0 uid of Some ss \<Rightarrow> ss | None \<Rightarrow> []))
                       sockets0
      in ns\<lparr>pUserSockets := sockets1, pOnlineUsers := mapSet uid nw (pOnlineUsers ns)\<rparr>)"

definition handleConnection :: "int \<Rightarrow> presence_ns \<Rightarrow> string \<Rightarrow> string \<Rightarrow> presence_ns \<times> action list" where
  "handleConnection nw ns sid uid =
     (let ns1 = addUserOnline nw ns sid uid
      in (ns1, [Emit (ToSocket sid) (EvOnlineUsers (map fst (pOnlineUsers ns1))),
                Emit ToAll (EvUserOnline uid)]))"

text \<open>
  handleDisconnection: when the last socket of the user closes, the user is removed and
  \<open>user_offline\<close> is broadcast at once; no timer is involved.
\<close>

definition handleDisconnection :: "presence_ns \<Rightarrow> string \<Rightarrow> string \<Rightarrow> presence_ns \<times> action list" where
  "handleDisconnection ns sid uid =
     (case mapGet (pUserSockets ns) uid of
        None \<Rightarrow> (ns, [])
      | Some userSocketSet \<Rightarrow>
          let userSocketSet1 = filter (\<lambda>s. s \<noteq> sid) userSocketSet
          in if length userSocketSet1 = 0
             then (if mapHas (pOnlineUsers ns) uid
                   then (ns\<lparr>pUserSockets := mapDelete uid (pUserSockets ns),
                            pOnlineUsers := mapDelete uid (pOnlineUsers ns)\<rparr>,
                         [Emit ToAll (EvUserOffline uid)])
                   else (ns\<lparr>pUserSockets := mapDelete uid (pUserSockets ns)\<rparr>, []))
             else (ns\<lparr>pUserSockets := mapSet uid userSocketSet1 (pUserSockets ns)\<rparr>, []))"

section \<open>Example data\<close>

text \<open>
  A subscription that ends at time 1000, allows one message (none used), 60 audio
  seconds (50 used) and no video, with the limits of its plan; a store with one such
  subscription for each of two users; an environment at time 500 with the bypass flag off
  and no store operation throwing.
\<close>

definition exampleSub :: "string \<Rightarrow> subscription" where
  "exampleSub u = \<lparr>userId = u, endDate = 1000, messagesUsedTotal = 0, messagesAllowed = Some 1,
     audioTimeUsedTotal = 50, videoTimeUsedTotal = 0, audioTimeAllowed = Some 60,
     videoTimeAllowed = Some 0, totalMessagesUsed = 0, totalAudioUsed = 50, totalVideoUsed = 0,
     planLimits = Some \<lparr>totalMessagesAllowed = 1, totalVideoTimeSeconds = 0,
       totalAudioTimeSeconds = 60, matchesAllowed = 0\<rparr>\<rparr>"

definition exampleDb :: db where
  "exampleDb = \<lparr>subscriptions = [exampleSub ''alice'', exampleSub ''bob''], chats = []\<rparr>"

definition exampleEnv :: env where
  "exampleEnv = \<lparr>bypass = False, now = 500, fault = None\<rparr>"

definition exampleReq :: "string \<Rightarrow> send_req" where
  "exampleReq pid = \<lparr>reqFrom = ''alice'', reqTo = ''bob'', reqMessage = ''hi'', reqPetitionId = pid\<rparr>"

definition examplePayload :: send_payload where
  "examplePayload = \<lparr>receiverId = ''bob'', messageText = ''hi'', messageId = ''m1''\<rparr>"

definition exampleServer :: "db \<Rightarrow> server" where
  "exampleServer d = \<lparr>store = d, onlineUsers = [], userRooms = [], timers = []\<rparr>"

text \<open>
  Variants: the sender has used the one message of the allowance; the sender's
  allowance is 2.5 messages, with none and with two of them used; \<open>chat.save()\<close>
  throws; the \<open>findOne\<close> of the limit check throws; the bypass flag is set and the
  clock is past the end of the subscriptions.
\<close>

definition exhaustedDb :: db where
  "exhaustedDb = \<lparr>subscriptions = [(exampleSub ''alice'')\<lparr>messagesUsedTotal := 1, totalMessagesUsed := 1\<rparr>,
     exampleSub ''bob''], chats = []\<rparr>"

definition fractionalDb :: db where
  "fractionalDb = \<lparr>subscriptions = [(exampleSub ''alice'')\<lparr>messagesAllowed := Some (5 / 2)\<rparr>,
     exampleSub ''bob''], chats = []\<rparr>"

definition fractionalUsedDb :: db where
  "fractionalUsedDb = \<lparr>subscriptions = [(exampleSub ''alice'')\<lparr>messagesAllowed := Some (5 / 2),
     messagesUsedTotal := 2, totalMessagesUsed := 2\<rparr>, exampleSub ''bob''], chats = []\<rparr>"

definition failingEnv :: env where
  "failingEnv = exampleEnv\<lparr>fault := Some ChatSave\<rparr>"

definition checkFaultEnv :: env where
  "checkFaultEnv = exampleEnv\<lparr>fault := Some CheckFind\<rparr>"

definition exampleRaw :: raw_payload where
  "exampleRaw = \<lparr>rawReceiverId = ''bob'', rawMessage = StringMessage ''hi'', rawMessageId = ''m1''\<rparr>"

definition bypassLateEnv :: env where
  "bypassLateEnv = exampleEnv\<lparr>bypass := True, now := 2000\<rparr>"

section \<open>Properties\<close>

subsection \<open>Lemmas about the store and the handlers\<close>

lemma findOneIdx_Some:
  "findOneIdx P xs = Some i \<Longrightarrow> i < length xs \<and> P (xs ! i)"
  by (induction xs arbitrary: i) (auto split: if_splits)

lemma findOneIdx_update_same:
  "j < length xs \<Longrightarrow> P y = P (xs ! j) \<Longrightarrow> findOneIdx P (xs[j := y]) = findOneIdx P xs"
proof (induction xs arbitrary: j)
  case Nil
  then show ?case by simp
next
  case (Cons x xs)
  then show ?case by (cases j) auto
qed

lemma findOne_Some:
  "findOne P xs = Some (i, x) \<Longrightarrow> i < length xs \<and> x = xs ! i \<and> P x"
  by (auto simp: findOne_def split: option.splits dest: findOneIdx_Some)

lemma findSubscription_Some:
  "findSubscription subs u = Some (i, sub) \<Longrightarrow> i < length subs \<and> sub = subs ! i \<and> userId sub = u"
  unfolding findSubscription_def by (drule findOne_Some) auto

lemma findSubscription_update:
  assumes "j < length subs" and "userId y = userId (subs ! j)"
  shows "findSubscription (subs[j := y]) u =
         (case findSubscription subs u of
            None \<Rightarrow> None
          | Some (i, sub) \<Rightarrow> Some (i, if i = j then y else sub))"
proof -
  have "findOneIdx (\<lambda>s. userId s = u) (subs[j := y]) = findOneIdx (\<lambda>s. userId s = u) subs"
    using assms by (intro findOneIdx_update_same) auto
  then show ?thesis
    using assms
    by (auto simp: findSubscription_def findOne_def split: option.splits dest: findOneIdx_Some)
qed

lemma sendMessage_check_Inr:
  assumes "sendMessage_check e d r = Inr (i, sub, rm)" and "\<not> bypass e"
  shows "findSubscription (subscriptions d) (reqFrom r) = Some (i, sub)
         \<and> rm = remainingOf sub
         \<and> (\<forall>N. messagesAllowed sub = Some N \<longrightarrow> messagesUsedTotal sub < N)"
  using assms
  by (auto simp: sendMessage_check_def remainingOf_def Let_def
           split: if_splits option.splits prod.splits)

lemma sendMessage_effect:
  assumes "\<not> bypass e" and "sendMessage e d r = (d1, resp)"
  shows "(granted resp \<and> (\<exists>i sub. findSubscription (subscriptions d) (reqFrom r) = Some (i, sub)
             \<and> subscriptions d1 = (subscriptions d)[i := sub\<lparr>messagesUsedTotal := messagesUsedTotal sub + 1,
                   totalMessagesUsed := messagesUsedTotal sub + 1\<rparr>]
             \<and> (\<forall>N. messagesAllowed sub = Some N \<longrightarrow> messagesUsedTotal sub < N)))
         \<or> (\<not> granted resp \<and> subscriptions d1 = subscriptions d)"
proof (cases "sendMessage_check e d r")
  case (Inl resp0)
  then show ?thesis using assms
    by (auto simp: sendMessage_def granted_def sendMessage_check_def Let_def
             split: if_splits option.splits prod.splits)
next
  case (Inr x)
  obtain i sub rm where x: "x = (i, sub, rm)" by (cases x) auto
  note chk = sendMessage_check_Inr[OF Inr[unfolded x] assms(1)]
  from chk have idx: "i < length (subscriptions d)" "sub = subscriptions d ! i"
    by (auto dest: findSubscription_Some)
  show ?thesis
  proof (cases "persistMessage e (chats d) (newMessage r)")
    case (Pair cs ok)
    show ?thesis
    proof (cases ok)
      case True
      then show ?thesis using assms Inr x Pair chk idx
        by (auto simp: sendMessage_def granted_def sendMessage_debit_def saveMessageUsage_def Let_def)
    next
      case False
      then show ?thesis using assms Inr x Pair
        by (auto simp: sendMessage_def granted_def)
    qed
  qed
qed

lemmas example_defs = exampleSub_def exampleDb_def exampleEnv_def exampleReq_def
  examplePayload_def exampleServer_def

lemmas http_defs = sendMessage_def sendMessage_check_def sendMessage_debit_def
  saveMessageUsage_def validateBothUsersSubscription_http_def remainingOf_def
  finalRemaining_def persistMessage_def findChat_def newMessage_def findSubscription_def
  findOne_def trim_def isSpace_def granted_def usedMessages_def chatSaveOk_def

lemma example_send:
  "sendMessage exampleEnv exampleDb (exampleReq pid) =
     (\<lparr>subscriptions = [(exampleSub ''alice'')\<lparr>messagesUsedTotal := 1, totalMessagesUsed := 1\<rparr>,
                        exampleSub ''bob''],
       chats = [\<lparr>chatFrom = ''alice'', chatTo = ''bob'', messages = [newMessage (exampleReq pid)]\<rparr>]\<rparr>,
      Status200 1 (Some 0))"
  by (simp add: example_defs http_defs Let_def)

lemma sendMessage_counter:
  assumes "\<not> bypass e" and "findSubscription (subscriptions d) (reqFrom r) = Some (i, sub)"
  shows "(granted (snd (sendMessage e d r)) \<longrightarrow>
            usedMessages (fst (sendMessage e d r)) (reqFrom r) = messagesUsedTotal sub + 1
            \<and> (\<forall>N. messagesAllowed sub = Some N \<longrightarrow> messagesUsedTotal sub < N))
         \<and> (\<not> granted (snd (sendMessage e d r)) \<longrightarrow>
            usedMessages (fst (sendMessage e d r)) (reqFrom r) = messagesUsedTotal sub)"
proof -
  obtain d1 resp where run: "sendMessage e d r = (d1, resp)" by (cases "sendMessage e d r") auto
  from assms(2) have idx: "i < length (subscriptions d)"
    by (auto dest: findSubscription_Some)
  from sendMessage_effect[OF assms(1) run] show ?thesis
  proof
    assume g: "granted resp \<and> (\<exists>i sub. findSubscription (subscriptions d) (reqFrom r) = Some (i, sub)
             \<and> subscriptions d1 = (subscriptions d)[i := sub\<lparr>messagesUsedTotal := messagesUsedTotal sub + 1,
                   totalMessagesUsed := messagesUsedTotal sub + 1\<rparr>]
             \<and> (\<forall>N. messagesAllowed sub = Some N \<longrightarrow> messagesUsedTotal sub < N))"
    with assms(2) have upd: "subscriptions d1 = (subscriptions d)[i := sub\<lparr>messagesUsedTotal := messagesUsedTotal sub + 1,
                   totalMessagesUsed := messagesUsedTotal sub + 1\<rparr>]"
      and lt: "\<forall>N. messagesAllowed sub = Some N \<longrightarrow> messagesUsedTotal sub < N"
      by auto
    have "findSubscription (subscriptions d1) (reqFrom r) =
            Some (i, sub\<lparr>messagesUsedTotal := messagesUsedTotal sub + 1,
                   totalMessagesUsed := messagesUsedTotal sub + 1\<rparr>)"
      unfolding upd using assms(2) idx findSubscription_Some[OF assms(2)]
      by (subst findSubscription_update) auto
    then show ?thesis using g lt run by (auto simp: usedMessages_def)
  next
    assume "\<not> granted resp \<and> subscriptions d1 = subscriptions d"
    then show ?thesis using run assms(2) by (simp add: usedMessages_def)
  qed
qed

text \<open>
  Running the three steps of one task without interruption is the handler itself.
\<close>

lemma sendMessage_as_steps:
  "run_schedule e d [Start r] [0, 0, 0] = (fst (sendMessage e d r), [Finished (snd (sendMessage e d r))])"
  by (auto simp: sendMessage_def split: sum.splits prod.splits bool.splits)

lemma sendMessage_keeps_subscription:
  assumes nb: "\<not> bypass e"
    and f: "findSubscription (subscriptions d) u = Some (i, sub)"
  shows "\<exists>sub'. findSubscription (subscriptions (fst (sendMessage e d r))) u = Some (i, sub')
           \<and> messagesAllowed sub' = messagesAllowed sub
           \<and> (if reqFrom r = u \<and> granted (snd (sendMessage e d r))
               then messagesUsedTotal sub' = messagesUsedTotal sub + 1
                    \<and> (\<forall>N. messagesAllowed sub = Some N \<longrightarrow> messagesUsedTotal sub < N)
               else messagesUsedTotal sub' = messagesUsedTotal sub)"
proof -
  obtain d1 resp where run: "sendMessage e d r = (d1, resp)" by (cases "sendMessage e d r") auto
  from sendMessage_effect[OF nb run] show ?thesis
  proof
    assume "granted resp \<and> (\<exists>i sub. findSubscription (subscriptions d) (reqFrom r) = Some (i, sub)
             \<and> subscriptions d1 = (subscriptions d)[i := sub\<lparr>messagesUsedTotal := messagesUsedTotal sub + 1,
                   totalMessagesUsed := messagesUsedTotal sub + 1\<rparr>]
             \<and> (\<forall>N. messagesAllowed sub = Some N \<longrightarrow> messagesUsedTotal sub < N))"
    then obtain k ksub where g: "granted resp"
      and kf: "findSubscription (subscriptions d) (reqFrom r) = Some (k, ksub)"
      and upd: "subscriptions d1 = (subscriptions d)[k := ksub\<lparr>messagesUsedTotal := messagesUsedTotal ksub + 1,
                   totalMessagesUsed := messagesUsedTotal ksub + 1\<rparr>]"
      and lt: "\<forall>N. messagesAllowed ksub = Some N \<longrightarrow> messagesUsedTotal ksub < N"
      by blast
    from kf have kidx: "k < length (subscriptions d)" "ksub = subscriptions d ! k" "userId ksub = reqFrom r"
      by (auto dest: findSubscription_Some)
    from f have idx: "i < length (subscriptions d)" "sub = subscriptions d ! i" "userId sub = u"
      by (auto dest: findSubscription_Some)
    have fs: "findSubscription (subscriptions d1) u =
            Some (i, if i = k then ksub\<lparr>messagesUsedTotal := messagesUsedTotal ksub + 1,
                   totalMessagesUsed := messagesUsedTotal ksub + 1\<rparr> else sub)"
      unfolding upd using f kidx by (subst findSubscription_update) auto
    show ?thesis
    proof (cases "reqFrom r = u")
      case True
      with f kf have "k = i" "ksub = sub" by auto
      then show ?thesis using fs g lt run True by auto
    next
      case False
      with kidx idx have "i \<noteq> k" by auto
      then show ?thesis using fs run False by auto
    qed
  next
    assume "\<not> granted resp \<and> subscriptions d1 = subscriptions d"
    then show ?thesis using run f by auto
  qed
qed

lemmas example_defs2 = exhaustedDb_def fractionalDb_def fractionalUsedDb_def failingEnv_def checkFaultEnv_def
  bypassLateEnv_def exampleRaw_def

lemma whole_below: "(x::real) \<in> \<int> \<Longrightarrow> N \<in> \<int> \<Longrightarrow> x < N \<Longrightarrow> x + 1 \<le> N"
  by (auto elim!: Ints_cases)

lemma ceiling_step:
  fixes N x :: real
  assumes "x < N"
  shows "1 + max 0 \<lceil>N - (x + 1)\<rceil> \<le> max 0 \<lceil>N - x\<rceil>"
proof -
  have "\<lceil>N - (x + 1)\<rceil> = \<lceil>N - x\<rceil> - 1"
    by (simp add: algebra_simps flip: ceiling_diff_one)
  moreover from assms have "0 < \<lceil>N - x\<rceil>" by (simp add: ceiling_less_iff less_ceiling_iff)
  ultimately show ?thesis by simp
qed

lemmas socket_only_defs = send_message_def validateBothUsersSubscription_def
  checkMessageLimit_def saveMessageToDB_def messageObj_def deliveries_def orZero_def mapHas_def
  limitsPath_def

lemmas socket_defs = socket_only_defs persistMessage_def findChat_def findSubscription_def
  findOne_def trim_def isSpace_def usedMessages_def chatSaveOk_def

lemma checkMessageLimit_store: "fst (checkMessageLimit e subs u) = subs"
  by (auto simp: checkMessageLimit_def Let_def split: option.splits)





lemma debit_used:
  assumes "findSubscription subs u = Some (i, sub)"
  shows "findSubscription (subs[i := sub\<lparr>messagesUsedTotal := messagesUsedTotal sub + 1,
                               totalMessagesUsed := messagesUsedTotal sub + 1\<rparr>]) u
         = Some (i, sub\<lparr>messagesUsedTotal := messagesUsedTotal sub + 1,
                               totalMessagesUsed := messagesUsedTotal sub + 1\<rparr>)"
proof -
  from assms have idx: "i < length subs" "sub = subs ! i" "userId sub = u"
    by (auto dest: findSubscription_Some)
  show ?thesis using idx assms by (subst findSubscription_update) auto
qed

lemma saveMessageToDB_writes:
  "snd (snd (saveMessageToDB e d u t m mid)) =
     (if fault e = Some SaveFind
         \<or> (findSubscription (subscriptions d) u \<noteq> None \<and> \<not> bypass e \<and> fault e = Some SaveSubscription)
      then []
      else (if findSubscription (subscriptions d) u \<noteq> None \<and> \<not> bypass e then [Debit] else [])
           @ (if fault e = Some SaveChatFind
                 \<or> (fault e = Some SaveChatCreate \<and> findChat (chats d) u t = None)
                 \<or> fault e = Some ChatSave
              then [] else [Persist]))
   \<and> fst (snd (saveMessageToDB e d u t m mid)) = (Persist \<in> set (snd (snd (saveMessageToDB e d u t m mid))))"
  by (auto simp: saveMessageToDB_def persistMessage_def chatSaveOk_def Let_def
           split: prod.splits option.splits)

lemma saveMessageToDB_subscriptions:
  "(Debit \<in> set (snd (snd (saveMessageToDB e d u t m mid)))
      \<longrightarrow> usedMessages (fst (saveMessageToDB e d u t m mid)) u = usedMessages d u + 1)
   \<and> (Debit \<notin> set (snd (snd (saveMessageToDB e d u t m mid)))
      \<longrightarrow> subscriptions (fst (saveMessageToDB e d u t m mid)) = subscriptions d)"
proof (cases "findSubscription (subscriptions d) u")
  case None
  then show ?thesis
    by (auto simp: saveMessageToDB_def Let_def split: prod.splits bool.splits)
next
  case (Some a)
  obtain i sub where a: "a = (i, sub)" by (cases a) auto
  from debit_used[of "subscriptions d" u i sub] Some a show ?thesis
    by (auto simp: saveMessageToDB_def usedMessages_def Let_def split: prod.splits bool.splits)
qed


lemma validate_canChat:
  "fst (snd (validateBothUsersSubscription e subs a b)) = fst (validateBothUsersSubscription e subs a b)"
  by (auto simp: validateBothUsersSubscription_def split: option.splits)

lemma validate_sender:
  "fst (validateBothUsersSubscription e subs a b) \<Longrightarrow> \<not> bypass e \<Longrightarrow>
     \<exists>i sub. findSubscription subs a = Some (i, sub) \<and> \<not> now e > endDate sub"
  by (auto simp: validateBothUsersSubscription_def split: option.splits if_splits)

lemma send_message_cases:
  "send_message e st sid uid p =
     (if receiverId p = [] \<or> trim (messageText p) = []
      then (st, [Emit (ToSocket sid) (EvError ''validation_error'')])
      else if \<not> fst (validateBothUsersSubscription e (subscriptions (store st)) uid (receiverId p))
      then (st, [Validate, Emit (ToSocket sid) (EvError ''subscription_error'')])
      else if \<not> canSend (snd (checkMessageLimit e (subscriptions (store st)) uid))
      then (st, [Validate, CheckLimit, Emit (ToSocket sid) (EvError ''limit_exceeded'')])
      else (st\<lparr>store := fst (saveMessageToDB e (store st)
                uid (receiverId p) (messageText p) (messageId p))\<rparr>,
            [Validate, CheckLimit]
            @ snd (snd (saveMessageToDB e (store st)
                uid (receiverId p) (messageText p) (messageId p)))
            @ (if fst (snd (saveMessageToDB e (store st)
                uid (receiverId p) (messageText p) (messageId p)))
               then [Emit (ToSocket sid) (EvMessageSent (messageObj uid p))] @ deliveries st sid uid p
               else [Emit (ToSocket sid) (EvError ''db_error'')])))"
proof -
  have c: "checkMessageLimit e (subscriptions (store st)) uid
        = (subscriptions (store st), snd (checkMessageLimit e (subscriptions (store st)) uid))"
    using checkMessageLimit_store[of e "subscriptions (store st)" uid]
    by (cases "checkMessageLimit e (subscriptions (store st)) uid") simp
  show ?thesis
    using validate_canChat[of e "subscriptions (store st)" uid "receiverId p"]
    by (subst send_message_def, subst c) (auto split: prod.splits)
qed

lemma sendMessage_check_Inl:
  "sendMessage_check e d r = Inl resp \<Longrightarrow> \<not> granted resp"
  by (auto simp: sendMessage_check_def granted_def Let_def
           split: if_splits option.splits prod.splits)

lemma findOneIdx_None:
  "(\<forall>x \<in> set xs. \<not> P x) \<Longrightarrow> findOneIdx P xs = None"
  by (induction xs) auto

lemma validate_http_sender:
  "fst (validateBothUsersSubscription_http e subs a b) \<Longrightarrow> \<not> bypass e \<Longrightarrow>
     findSubscription subs a = Some (i, sub) \<Longrightarrow> \<not> now e > endDate sub"
  by (auto simp: validateBothUsersSubscription_http_def split: option.splits if_splits)

lemma mapGet_mapSet: "mapGet (mapSet k v m) k = Some v"
  by (induction m) (auto simp: mapGet_def)

lemma mapHas_mapDelete: "\<not> mapHas (mapDelete k m) k"
  by (induction m) (auto simp: mapHas_def mapDelete_def)

lemmas presence_defs = connection_def disconnect_def advance_def
  offlineBroadcasts_def mapGet_def mapHas_def mapDelete_def handleDisconnection_def
  handleConnection_def addUserOnline_def setAdd_def








subsection \<open>C1: Usage counters and allowances\<close>

text \<open>
  C1, as stated, fails on call-stop reporting: with 60 audio seconds allowed and 50 used,
  reporting 20 elapsed seconds succeeds and leaves the counter at 70.
\<close>

theorem stopCallUsage_overdraw_counterexample:
  "snd (stopCallUsage [exampleSub ''alice''] ''alice'' ''audio'' (Some 20)) = Usage200 None
   \<and> map audioTimeUsedTotal (fst (stopCallUsage [exampleSub ''alice''] ''alice'' ''audio'' (Some 20))) = [70]
   \<and> map audioTimeAllowed (fst (stopCallUsage [exampleSub ''alice''] ''alice'' ''audio'' (Some 20))) = [Some 60]"
  by (simp add: stopCallUsage_def validCallType_def elapsedSecs_def findSubscription_def
        findOne_def incCallUsage_def exampleSub_def)

text \<open>
  C1, amended. Allowances are not rounded when they are stored, and the counters are
  doubles: the statement is about a counter that is a whole number, and about values up to
  \<open>2^53\<close>, where the sums of the code are exact. On the HTTP send path with the
  bypass flag off, when the sender's \<open>messagesAllowed\<close> is a number \<open>N\<close>: a
  granted send raises \<open>messagesUsedTotal\<close> by exactly one and leaves it below
  \<open>N + 1\<close>, and at most \<open>N\<close> when \<open>N\<close> is whole; a send that is not granted
  leaves the counter unchanged. Call-stop reporting with a valid call type always
  succeeds and adds the reported whole seconds to the counter of that call type, whatever
  the allowance is.
\<close>

theorem http_debit_within_allowance_call_stop_adds:
  "(\<not> bypass e \<and> findSubscription (subscriptions d) (reqFrom r) = Some (i, sub)
      \<and> messagesAllowed sub = Some N \<and> N \<le> 2 ^ 53
      \<and> messagesUsedTotal sub \<in> \<int> \<and> 0 \<le> messagesUsedTotal sub \<longrightarrow>
      (granted (snd (sendMessage e d r)) \<longrightarrow>
         usedMessages (fst (sendMessage e d r)) (reqFrom r) = messagesUsedTotal sub + 1
         \<and> usedMessages (fst (sendMessage e d r)) (reqFrom r) < N + 1
         \<and> (N \<in> \<int> \<longrightarrow> usedMessages (fst (sendMessage e d r)) (reqFrom r) \<le> N))
      \<and> (\<not> granted (snd (sendMessage e d r)) \<longrightarrow>
         usedMessages (fst (sendMessage e d r)) (reqFrom r) = messagesUsedTotal sub))
   \<and> (validCallType callType \<and> findSubscription subs u = Some (j, csub)
        \<and> usedSeconds callType csub \<in> \<int> \<and> 0 \<le> usedSeconds callType csub
        \<and> usedSeconds callType csub + elapsedSecs elapsedSec \<le> 2 ^ 53 \<longrightarrow>
        snd (stopCallUsage subs u callType elapsedSec) = Usage200 None
        \<and> map_option (usedSeconds callType \<circ> snd)
             (findSubscription (fst (stopCallUsage subs u callType elapsedSec)) u)
           = Some (usedSeconds callType csub + elapsedSecs elapsedSec))"
proof (intro conjI impI)
  assume h: "\<not> bypass e \<and> findSubscription (subscriptions d) (reqFrom r) = Some (i, sub)
      \<and> messagesAllowed sub = Some N \<and> N \<le> 2 ^ 53
      \<and> messagesUsedTotal sub \<in> \<int> \<and> 0 \<le> messagesUsedTotal sub"
  then have c: "(granted (snd (sendMessage e d r)) \<longrightarrow>
            usedMessages (fst (sendMessage e d r)) (reqFrom r) = messagesUsedTotal sub + 1
            \<and> (\<forall>N. messagesAllowed sub = Some N \<longrightarrow> messagesUsedTotal sub < N))
         \<and> (\<not> granted (snd (sendMessage e d r)) \<longrightarrow>
            usedMessages (fst (sendMessage e d r)) (reqFrom r) = messagesUsedTotal sub)"
    by (intro sendMessage_counter) auto
  { assume g: "granted (snd (sendMessage e d r))"
    with c h show "usedMessages (fst (sendMessage e d r)) (reqFrom r) = messagesUsedTotal sub + 1"
      and "usedMessages (fst (sendMessage e d r)) (reqFrom r) < N + 1" by auto
    { assume "N \<in> \<int>"
      with g c h whole_below[of "messagesUsedTotal sub" N]
      show "usedMessages (fst (sendMessage e d r)) (reqFrom r) \<le> N" by auto } }
  { assume "\<not> granted (snd (sendMessage e d r))"
    with c show "usedMessages (fst (sendMessage e d r)) (reqFrom r) = messagesUsedTotal sub" by auto }
next
  assume h: "validCallType callType \<and> findSubscription subs u = Some (j, csub)
        \<and> usedSeconds callType csub \<in> \<int> \<and> 0 \<le> usedSeconds callType csub
        \<and> usedSeconds callType csub + elapsedSecs elapsedSec \<le> 2 ^ 53"
  then show "snd (stopCallUsage subs u callType elapsedSec) = Usage200 None"
    by (auto simp: stopCallUsage_def Let_def)
  from h have idx: "j < length subs" "csub = subs ! j" "userId csub = u"
    by (auto dest: findSubscription_Some)
  have uid: "userId (incCallUsage callType (elapsedSecs elapsedSec) csub) = userId (subs ! j)"
    using idx by (simp add: incCallUsage_def)
  have nonneg: "0 \<le> elapsedSecs elapsedSec" by (simp add: elapsedSecs_def)
  show "map_option (usedSeconds callType \<circ> snd)
             (findSubscription (fst (stopCallUsage subs u callType elapsedSec)) u)
           = Some (usedSeconds callType csub + elapsedSecs elapsedSec)"
  proof (cases "elapsedSecs elapsedSec > 0")
    case True
    then show ?thesis using h idx findSubscription_update[OF idx(1) uid, of u]
      by (auto simp: stopCallUsage_def Let_def usedSeconds_def incCallUsage_def)
  next
    case False
    with nonneg have "elapsedSecs elapsedSec = 0" by simp
    then show ?thesis using h by (simp add: stopCallUsage_def Let_def)
  qed
qed

text \<open>
  The amended C1 at the example data: with an allowance of 1, the send at usage 0 is
  granted and the counter becomes 1; the send at usage 1 is not granted and the counter
  stays 1; with an allowance of 2.5, the send at usage 2 is granted and the counter
  becomes 3; the call-stop report of 20 seconds takes the audio counter from 50 to 70.
\<close>

theorem http_debit_within_allowance_call_stop_adds_witness:
  "(\<not> bypass exampleEnv
     \<and> findSubscription (subscriptions exampleDb) ''alice'' = Some (0, exampleSub ''alice'')
     \<and> messagesAllowed (exampleSub ''alice'') = Some 1)
   \<and> granted (snd (sendMessage exampleEnv exampleDb (exampleReq ''MSG1'')))
   \<and> usedMessages (fst (sendMessage exampleEnv exampleDb (exampleReq ''MSG1''))) ''alice'' = 1
   \<and> usedMessages exhaustedDb ''alice'' = 1
   \<and> \<not> granted (snd (sendMessage exampleEnv exhaustedDb (exampleReq ''MSG2'')))
   \<and> usedMessages (fst (sendMessage exampleEnv exhaustedDb (exampleReq ''MSG2''))) ''alice'' = 1
   \<and> map messagesAllowed (subscriptions fractionalUsedDb) = [Some (5 / 2), Some 1]
   \<and> usedMessages fractionalUsedDb ''alice'' = 2
   \<and> granted (snd (sendMessage exampleEnv fractionalUsedDb (exampleReq ''MSG3'')))
   \<and> usedMessages (fst (sendMessage exampleEnv fractionalUsedDb (exampleReq ''MSG3''))) ''alice'' = 3
   \<and> (validCallType ''audio'' \<and> findSubscription [exampleSub ''alice''] ''alice'' = Some (0, exampleSub ''alice''))
   \<and> map_option (usedSeconds ''audio'' \<circ> snd)
        (findSubscription (fst (stopCallUsage [exampleSub ''alice''] ''alice'' ''audio'' (Some 20))) ''alice'')
      = Some 70"
proof -
  let ?used = "(exampleSub ''alice'')\<lparr>messagesUsedTotal := 1, totalMessagesUsed := 1\<rparr>"
  let ?frac = "(exampleSub ''alice'')\<lparr>messagesAllowed := Some (5 / 2),
     messagesUsedTotal := 2, totalMessagesUsed := 2\<rparr>"
  have h1: "\<not> bypass exampleEnv
     \<and> findSubscription (subscriptions exampleDb) (reqFrom (exampleReq ''MSG1'')) = Some (0, exampleSub ''alice'')
     \<and> messagesAllowed (exampleSub ''alice'') = Some 1 \<and> (1::real) \<le> 2 ^ 53
     \<and> messagesUsedTotal (exampleSub ''alice'') \<in> \<int> \<and> 0 \<le> messagesUsedTotal (exampleSub ''alice'')"
    by (simp add: example_defs findSubscription_def findOne_def)
  have g1: "granted (snd (sendMessage exampleEnv exampleDb (exampleReq ''MSG1'')))"
    by (simp add: example_send granted_def)
  have h2: "\<not> bypass exampleEnv
     \<and> findSubscription (subscriptions exhaustedDb) (reqFrom (exampleReq ''MSG2'')) = Some (0, ?used)
     \<and> messagesAllowed ?used = Some 1 \<and> (1::real) \<le> 2 ^ 53
     \<and> messagesUsedTotal ?used \<in> \<int> \<and> 0 \<le> messagesUsedTotal ?used"
    by (simp add: example_defs example_defs2 findSubscription_def findOne_def)
  have g2: "\<not> granted (snd (sendMessage exampleEnv exhaustedDb (exampleReq ''MSG2'')))"
    by (simp add: example_defs example_defs2 http_defs)
  have h3: "\<not> bypass exampleEnv
     \<and> findSubscription (subscriptions fractionalUsedDb) (reqFrom (exampleReq ''MSG3'')) = Some (0, ?frac)
     \<and> messagesAllowed ?frac = Some (5 / 2) \<and> (5 / 2 :: real) \<le> 2 ^ 53
     \<and> messagesUsedTotal ?frac \<in> \<int> \<and> 0 \<le> messagesUsedTotal ?frac"
    by (simp add: example_defs example_defs2 findSubscription_def findOne_def)
  have g3: "granted (snd (sendMessage exampleEnv fractionalUsedDb (exampleReq ''MSG3'')))"
    by (simp add: example_defs example_defs2 http_defs Let_def)
  have h4: "validCallType ''audio'' \<and> findSubscription [exampleSub ''alice''] ''alice'' = Some (0, exampleSub ''alice'')
     \<and> usedSeconds ''audio'' (exampleSub ''alice'') \<in> \<int> \<and> 0 \<le> usedSeconds ''audio'' (exampleSub ''alice'')
     \<and> usedSeconds ''audio'' (exampleSub ''alice'') + elapsedSecs (Some 20) \<le> 2 ^ 53"
    by (simp add: example_defs findSubscription_def findOne_def validCallType_def usedSeconds_def
          elapsedSecs_def)
  have v: "usedSeconds ''audio'' (exampleSub ''alice'') + elapsedSecs (Some 20) = 70"
    by (simp add: exampleSub_def usedSeconds_def elapsedSecs_def)
  have u: "messagesUsedTotal (exampleSub ''alice'') = 0" "messagesUsedTotal ?used = 1"
    "messagesUsedTotal ?frac = 2" "reqFrom (exampleReq ''MSG1'') = ''alice''"
    "reqFrom (exampleReq ''MSG2'') = ''alice''" "reqFrom (exampleReq ''MSG3'') = ''alice''"
    "usedMessages exhaustedDb ''alice'' = 1" "usedMessages fractionalUsedDb ''alice'' = 2"
    "map messagesAllowed (subscriptions fractionalUsedDb) = [Some (5 / 2), Some 1]"
    by (simp_all add: example_defs example_defs2 usedMessages_def findSubscription_def findOne_def)
  from http_debit_within_allowance_call_stop_adds
    [where e = exampleEnv and d = exampleDb and r = "exampleReq ''MSG1''" and i = 0
       and sub = "exampleSub ''alice''" and N = 1 and callType = "''audio''"
       and subs = "[exampleSub ''alice'']" and u = "''alice''" and j = 0
       and csub = "exampleSub ''alice''" and elapsedSec = "Some 20"]
    http_debit_within_allowance_call_stop_adds
    [where e = exampleEnv and d = exhaustedDb and r = "exampleReq ''MSG2''" and i = 0
       and sub = ?used and N = 1 and callType = "''audio''"
       and subs = "[exampleSub ''alice'']" and u = "''alice''" and j = 0
       and csub = "exampleSub ''alice''" and elapsedSec = "Some 20"]
    http_debit_within_allowance_call_stop_adds
    [where e = exampleEnv and d = fractionalUsedDb and r = "exampleReq ''MSG3''" and i = 0
       and sub = ?frac and N = "5 / 2" and callType = "''audio''"
       and subs = "[exampleSub ''alice'']" and u = "''alice''" and j = 0
       and csub = "exampleSub ''alice''" and elapsedSec = "Some 20"]
    h1 g1 h2 g2 h3 g3 h4 v u
  show ?thesis by simp
qed

subsection \<open>C2: Concurrent sends\<close>

text \<open>
  C2, as stated, fails: one unit of quota remains (allowance 1, usage 0) and two HTTP
  sends of the same sender are interleaved at their suspension points. Both load the
  subscription before either saves it, both pass the check, both messages are persisted
  and both sends are answered with success; each save writes the value 1.
\<close>

theorem interleaved_sends_both_granted_counterexample:
  "map taskGranted (snd (run_schedule exampleEnv exampleDb
       [Start (exampleReq ''MSG1''), Start (exampleReq ''MSG2'')] [0, 1, 0, 1, 0, 1])) = [True, True]
   \<and> map messagesAllowed (subscriptions exampleDb) = [Some 1, Some 1]
   \<and> map messagesUsedTotal (subscriptions exampleDb) = [0, 0]
   \<and> map messagesUsedTotal (subscriptions (fst (run_schedule exampleEnv exampleDb
       [Start (exampleReq ''MSG1''), Start (exampleReq ''MSG2'')] [0, 1, 0, 1, 0, 1]))) = [1, 0]
   \<and> map (length \<circ> messages) (chats (fst (run_schedule exampleEnv exampleDb
       [Start (exampleReq ''MSG1''), Start (exampleReq ''MSG2'')] [0, 1, 0, 1, 0, 1]))) = [2]"
  by (simp add: example_defs http_defs taskGranted_def Let_def)

text \<open>
  C2, amended. When HTTP sends are handled one after the other (each handler runs to
  completion before the next one starts, bypass flag off), the number of granted sends of
  a sender whose \<open>messagesAllowed\<close> is a number \<open>N\<close> (up to \<open>2^53\<close>, the
  counter being whole) is at most what remains of the allowance rounded up,
  \<open>max 0 \<lceil>N - messagesUsedTotal\<rceil>\<close>; when \<open>N\<close> is whole this is
  \<open>max 0 (N - messagesUsedTotal)\<close>.
\<close>

theorem sequential_sends_bounded:
  assumes "\<forall>er \<in> set rs. \<not> bypass (fst er)"
    and "findSubscription (subscriptions d) u = Some (i, sub)"
    and "messagesAllowed sub = Some N"
    and "N \<le> 2 ^ 53"
    and "messagesUsedTotal sub \<in> \<int>"
    and "0 \<le> messagesUsedTotal sub"
  shows "int (grantedCount u rs (snd (sendMessages d rs))) \<le> max 0 \<lceil>N - messagesUsedTotal sub\<rceil>
         \<and> (N \<in> \<int> \<longrightarrow>
              real (grantedCount u rs (snd (sendMessages d rs))) \<le> max 0 (N - messagesUsedTotal sub))"
proof -
  have bound: "int (grantedCount u rs (snd (sendMessages d rs))) \<le> max 0 \<lceil>N - messagesUsedTotal sub\<rceil>"
    using assms(1,2,3)
  proof (induction rs arbitrary: d sub)
    case Nil
    then show ?case by (simp add: grantedCount_def)
  next
    case (Cons er rs)
    obtain e r where er: "er = (e, r)" by (cases er) auto
    from Cons.prems er have nb: "\<not> bypass e" by auto
    obtain d1 resp where run: "sendMessage e d r = (d1, resp)" by (cases "sendMessage e d r") auto
    obtain d2 resps where rest: "sendMessages d1 rs = (d2, resps)" by (cases "sendMessages d1 rs") auto
    from sendMessage_keeps_subscription[OF nb Cons.prems(2), of r] run
    obtain sub' where s': "findSubscription (subscriptions d1) u = Some (i, sub')"
      and a': "messagesAllowed sub' = messagesAllowed sub"
      and c': "if reqFrom r = u \<and> granted resp
                 then messagesUsedTotal sub' = messagesUsedTotal sub + 1
                      \<and> (\<forall>N. messagesAllowed sub = Some N \<longrightarrow> messagesUsedTotal sub < N)
                 else messagesUsedTotal sub' = messagesUsedTotal sub"
      by auto
    have ih: "int (grantedCount u rs (snd (sendMessages d1 rs))) \<le> max 0 \<lceil>N - messagesUsedTotal sub'\<rceil>"
      using Cons.prems a' by (intro Cons.IH[OF _ s']) auto
    have cnt: "grantedCount u (er # rs) (snd (sendMessages d (er # rs))) =
          (if reqFrom r = u \<and> granted resp then 1 else 0) + grantedCount u rs resps"
      using er run rest by (simp add: grantedCount_def)
    show ?case
    proof (cases "reqFrom r = u \<and> granted resp")
      case True
      with c' Cons.prems(3) have u': "messagesUsedTotal sub' = messagesUsedTotal sub + 1"
        and lt: "messagesUsedTotal sub < N" by auto
      from ih u' rest ceiling_step[OF lt] True cnt show ?thesis by simp
    next
      case False
      with c' have "messagesUsedTotal sub' = messagesUsedTotal sub" by auto
      then show ?thesis using ih cnt rest False by auto
    qed
  qed
  have whole: "real (grantedCount u rs (snd (sendMessages d rs))) \<le> max 0 (N - messagesUsedTotal sub)"
    if "N \<in> \<int>"
  proof -
    from that assms(5) have "N - messagesUsedTotal sub \<in> \<int>" by simp
    then have "of_int \<lceil>N - messagesUsedTotal sub\<rceil> = N - messagesUsedTotal sub" by simp
    moreover from bound
    have "real_of_int (int (grantedCount u rs (snd (sendMessages d rs))))
            \<le> real_of_int (max 0 \<lceil>N - messagesUsedTotal sub\<rceil>)"
      by (rule of_int_le_iff[THEN iffD2])
    ultimately show ?thesis by (simp add: max_def split: if_splits)
  qed
  from bound whole show ?thesis by blast
qed

text \<open>
  The amended C2 at the example data: of two sends in sequence against an allowance of 1,
  one is granted; of four sends in sequence against an allowance of 2.5, three are.
\<close>

theorem sequential_sends_bounded_witness:
  "\<not> bypass exampleEnv
   \<and> findSubscription (subscriptions exampleDb) ''alice'' = Some (0, exampleSub ''alice'')
   \<and> messagesAllowed (exampleSub ''alice'') = Some 1
   \<and> real (grantedCount ''alice'' [(exampleEnv, exampleReq ''MSG1''), (exampleEnv, exampleReq ''MSG2'')]
        (snd (sendMessages exampleDb [(exampleEnv, exampleReq ''MSG1''), (exampleEnv, exampleReq ''MSG2'')])))
      \<le> max 0 (1 - messagesUsedTotal (exampleSub ''alice''))
   \<and> map granted (snd (sendMessages exampleDb
        [(exampleEnv, exampleReq ''MSG1''), (exampleEnv, exampleReq ''MSG2'')])) = [True, False]
   \<and> map messagesAllowed (subscriptions fractionalDb) = [Some (5 / 2), Some 1]
   \<and> usedMessages fractionalDb ''alice'' = 0
   \<and> map granted (snd (sendMessages fractionalDb
        [(exampleEnv, exampleReq ''MSG1''), (exampleEnv, exampleReq ''MSG2''),
         (exampleEnv, exampleReq ''MSG3''), (exampleEnv, exampleReq ''MSG4'')]))
      = [True, True, True, False]
   \<and> int (grantedCount ''alice''
        [(exampleEnv, exampleReq ''MSG1''), (exampleEnv, exampleReq ''MSG2''),
         (exampleEnv, exampleReq ''MSG3''), (exampleEnv, exampleReq ''MSG4'')]
        (snd (sendMessages fractionalDb
        [(exampleEnv, exampleReq ''MSG1''), (exampleEnv, exampleReq ''MSG2''),
         (exampleEnv, exampleReq ''MSG3''), (exampleEnv, exampleReq ''MSG4'')]))) \<le> 3"
proof -
  let ?two = "[(exampleEnv, exampleReq ''MSG1''), (exampleEnv, exampleReq ''MSG2'')]"
  let ?four = "[(exampleEnv, exampleReq ''MSG1''), (exampleEnv, exampleReq ''MSG2''),
         (exampleEnv, exampleReq ''MSG3''), (exampleEnv, exampleReq ''MSG4'')]"
  let ?frac = "(exampleSub ''alice'')\<lparr>messagesAllowed := Some (5 / 2)\<rparr>"
  have h0: "\<not> bypass exampleEnv" by (simp add: exampleEnv_def)
  have h1: "\<forall>er \<in> set ?two. \<not> bypass (fst er)" by (simp add: exampleEnv_def)
  have h1': "\<forall>er \<in> set ?four. \<not> bypass (fst er)" by (simp add: exampleEnv_def)
  have h2: "findSubscription (subscriptions exampleDb) ''alice'' = Some (0, exampleSub ''alice'')"
    by (simp add: example_defs findSubscription_def findOne_def)
  have h2': "findSubscription (subscriptions fractionalDb) ''alice'' = Some (0, ?frac)"
    by (simp add: example_defs example_defs2 findSubscription_def findOne_def)
  have h3: "messagesAllowed (exampleSub ''alice'') = Some 1" "(1::real) \<le> 2 ^ 53"
    "messagesUsedTotal (exampleSub ''alice'') \<in> \<int>" "0 \<le> messagesUsedTotal (exampleSub ''alice'')"
    "(1::real) \<in> \<int>"
    by (simp_all add: exampleSub_def)
  have h3': "messagesAllowed ?frac = Some (5 / 2)" "(5 / 2 :: real) \<le> 2 ^ 53"
    "messagesUsedTotal ?frac \<in> \<int>" "0 \<le> messagesUsedTotal ?frac"
    by (simp_all add: exampleSub_def)
  have c: "max 0 \<lceil>5 / 2 - messagesUsedTotal ?frac\<rceil> = 3" by (simp add: exampleSub_def)
  have e1: "map granted (snd (sendMessages exampleDb ?two)) = [True, False]"
    by (simp add: example_defs http_defs Let_def)
  have e2: "map granted (snd (sendMessages fractionalDb ?four)) = [True, True, True, False]"
    by (simp add: example_defs example_defs2 http_defs Let_def)
  have e3: "map messagesAllowed (subscriptions fractionalDb) = [Some (5 / 2), Some 1]"
    "usedMessages fractionalDb ''alice'' = 0"
    by (simp_all add: example_defs example_defs2 usedMessages_def findSubscription_def findOne_def)
  from sequential_sends_bounded[OF h1 h2 h3(1,2,3,4)]
    sequential_sends_bounded[OF h1' h2' h3'] h0 h2 h3 c e1 e2 e3
  show ?thesis by simp
qed

subsection \<open>C3: Persistence failure after the debit\<close>

text \<open>
  C3, as stated, fails: a socket send whose checks pass and whose \<open>chat.save()\<close> throws
  ends with \<open>db_error\<close>, and the sender's counter, 0 before the send, is 1 after it.
\<close>

theorem socket_send_no_refund_counterexample:
  "snd (send_message failingEnv (exampleServer exampleDb) ''s1'' ''alice'' examplePayload)
     = [Validate, CheckLimit, Debit, Emit (ToSocket ''s1'') (EvError ''db_error'')]
   \<and> usedMessages exampleDb ''alice'' = 0
   \<and> usedMessages (store (fst (send_message failingEnv (exampleServer exampleDb) ''s1'' ''alice''
        examplePayload))) ''alice'' = 1"
  by (simp add: example_defs example_defs2 socket_defs Let_def)

text \<open>
  C3, amended. No refund is issued. On the socket path with the bypass flag off, when the
  checks pass and the persistence of the message fails, the handler has already saved the
  incremented usage: it emits \<open>db_error\<close> and the sender's \<open>messagesUsedTotal\<close> stays
  one above its value before the send. On the HTTP path the persistence comes before the
  debit, so a failed persistence is not granted and leaves every subscription unchanged.
\<close>

theorem failed_persistence_keeps_debit:
  "(\<not> bypass e \<and> \<not> chatSaveOk e \<and> receiverId p \<noteq> [] \<and> trim (messageText p) \<noteq> []
      \<and> fst (validateBothUsersSubscription e (subscriptions (store st)) uid (receiverId p))
      \<and> canSend (snd (checkMessageLimit e (subscriptions (store st)) uid))
    \<longrightarrow> snd (send_message e st sid uid p)
          = [Validate, CheckLimit, Debit, Emit (ToSocket sid) (EvError ''db_error'')]
        \<and> usedMessages (store (fst (send_message e st sid uid p))) uid
          = usedMessages (store st) uid + 1)
   \<and> (\<not> chatSaveOk e \<longrightarrow>
        \<not> granted (snd (sendMessage e d r))
        \<and> subscriptions (fst (sendMessage e d r)) = subscriptions d)"
proof (intro conjI impI)
  assume h: "\<not> bypass e \<and> \<not> chatSaveOk e \<and> receiverId p \<noteq> [] \<and> trim (messageText p) \<noteq> []
      \<and> fst (validateBothUsersSubscription e (subscriptions (store st)) uid (receiverId p))
      \<and> canSend (snd (checkMessageLimit e (subscriptions (store st)) uid))"
  then have v: "fst (validateBothUsersSubscription e (subscriptions (store st)) uid (receiverId p))"
    and nb: "\<not> bypass e" and f: "fault e = Some ChatSave"
    by (simp_all add: chatSaveOk_def)
  from validate_sender[OF v nb] have s: "findSubscription (subscriptions (store st)) uid \<noteq> None"
    by auto
  from saveMessageToDB_writes[of e "store st" uid "receiverId p" "messageText p" "messageId p"] s nb f
  have w: "snd (snd (saveMessageToDB e (store st) uid (receiverId p) (messageText p) (messageId p))) = [Debit]"
    "\<not> fst (snd (saveMessageToDB e (store st) uid (receiverId p) (messageText p) (messageId p)))"
    by simp_all
  from h w show "snd (send_message e st sid uid p)
          = [Validate, CheckLimit, Debit, Emit (ToSocket sid) (EvError ''db_error'')]"
    by (simp add: send_message_cases)
  from saveMessageToDB_subscriptions[of e "store st" uid "receiverId p" "messageText p" "messageId p"] h w
  show "usedMessages (store (fst (send_message e st sid uid p))) uid = usedMessages (store st) uid + 1"
    by (simp add: send_message_cases)
next
  assume "\<not> chatSaveOk e"
  then show "\<not> granted (snd (sendMessage e d r))"
    by (auto simp: sendMessage_def persistMessage_def Let_def granted_def
             split: sum.splits prod.splits bool.splits dest: sendMessage_check_Inl)
  assume "\<not> chatSaveOk e"
  then show "subscriptions (fst (sendMessage e d r)) = subscriptions d"
    by (auto simp: sendMessage_def persistMessage_def Let_def
             split: sum.splits prod.splits bool.splits)
qed

text \<open>
  The amended C3 at the example data, with \<open>chat.save()\<close> throwing.
\<close>

theorem failed_persistence_keeps_debit_witness:
  "\<not> bypass failingEnv \<and> \<not> chatSaveOk failingEnv
   \<and> receiverId examplePayload \<noteq> [] \<and> trim (messageText examplePayload) \<noteq> []
   \<and> fst (validateBothUsersSubscription failingEnv (subscriptions (store (exampleServer exampleDb)))
        ''alice'' (receiverId examplePayload))
   \<and> canSend (snd (checkMessageLimit failingEnv (subscriptions (store (exampleServer exampleDb))) ''alice''))
   \<and> snd (send_message failingEnv (exampleServer exampleDb) ''s1'' ''alice'' examplePayload)
       = [Validate, CheckLimit, Debit, Emit (ToSocket ''s1'') (EvError ''db_error'')]
   \<and> usedMessages (store (fst (send_message failingEnv (exampleServer exampleDb) ''s1'' ''alice''
        examplePayload))) ''alice'' = usedMessages (store (exampleServer exampleDb)) ''alice'' + 1
   \<and> \<not> granted (snd (sendMessage failingEnv exampleDb (exampleReq ''MSG1'')))
   \<and> subscriptions (fst (sendMessage failingEnv exampleDb (exampleReq ''MSG1''))) = subscriptions exampleDb"
proof -
  have h: "\<not> bypass failingEnv \<and> \<not> chatSaveOk failingEnv
   \<and> receiverId examplePayload \<noteq> [] \<and> trim (messageText examplePayload) \<noteq> []
   \<and> fst (validateBothUsersSubscription failingEnv (subscriptions (store (exampleServer exampleDb)))
        ''alice'' (receiverId examplePayload))
   \<and> canSend (snd (checkMessageLimit failingEnv (subscriptions (store (exampleServer exampleDb))) ''alice''))"
    by (simp add: example_defs example_defs2 socket_defs)
  from failed_persistence_keeps_debit[where e = failingEnv and st = "exampleServer exampleDb"
      and sid = "''s1''" and uid = "''alice''" and p = examplePayload and d = exampleDb
      and r = "exampleReq ''MSG1''"] h
  show ?thesis by blast
qed

subsection \<open>C4: Order of the send_message steps\<close>



subsection \<open>C5: Expired subscriptions\<close>

text \<open>
  C5, as stated, fails when \<open>BYPASS_SUBSCRIPTION_CHECKS\<close> is set: at time 2000 the
  subscriptions, which ended at 1000, still pass the HTTP send and the socket limit check.
\<close>

theorem bypass_grants_expired_counterexample:
  "granted (snd (sendMessage bypassLateEnv exampleDb (exampleReq ''MSG1'')))
   \<and> map endDate (subscriptions exampleDb) = [1000, 1000]
   \<and> now bypassLateEnv = 2000
   \<and> canSend (snd (checkMessageLimit bypassLateEnv (subscriptions exampleDb) ''alice''))"
  by (simp add: example_defs example_defs2 http_defs socket_only_defs Let_def)

text \<open>
  C5, amended. With the bypass flag off, a sender whose subscription has \<open>end < now\<close> is
  denied on the HTTP send path (the store is left as it is) and on the socket path (the
  limit check denies, and the handler stops at an error event before it); the call-start
  check, which has no bypass, denies with \<open>NO_SUBSCRIPTION\<close> when every subscription of
  the user has \<open>end < now\<close>. The remaining allowance plays no part.
\<close>

theorem expired_subscription_denied:
  "(\<not> bypass e \<and> findSubscription (subscriptions d) (reqFrom r) = Some (i, sub) \<and> endDate sub < now e
      \<longrightarrow> \<not> granted (snd (sendMessage e d r)) \<and> fst (sendMessage e d r) = d)
   \<and> (\<not> bypass e \<and> findSubscription (subscriptions (store st)) uid = Some (j, ssub)
        \<and> endDate ssub < now e
      \<longrightarrow> \<not> canSend (snd (checkMessageLimit e (subscriptions (store st)) uid))
          \<and> fst (send_message e st sid uid p) = st
          \<and> (snd (send_message e st sid uid p) = [Emit (ToSocket sid) (EvError ''validation_error'')]
             \<or> snd (send_message e st sid uid p)
                = [Validate, Emit (ToSocket sid) (EvError ''subscription_error'')]))
   \<and> ((\<forall>s \<in> set subs. userId s = u \<longrightarrow> endDate s < nw)
      \<longrightarrow> ensureCallQuota nw subs u callType = QuotaDenied ''NO_SUBSCRIPTION''
          \<and> (\<forall>remaining. startCallUsage nw subs u callType \<noteq> Usage200 remaining))"
proof (intro conjI impI)
  assume h: "\<not> bypass e \<and> findSubscription (subscriptions d) (reqFrom r) = Some (i, sub) \<and> endDate sub < now e"
  then have "\<exists>resp. sendMessage_check e d r = Inl resp"
    by (auto simp: sendMessage_check_def validateBothUsersSubscription_http_def Let_def
             split: option.splits)
  then obtain resp where c: "sendMessage_check e d r = Inl resp" by blast
  from c sendMessage_check_Inl[OF c] show "\<not> granted (snd (sendMessage e d r))"
    by (simp add: sendMessage_def)
  from c show "fst (sendMessage e d r) = d" by (simp add: sendMessage_def)
next
  assume h: "\<not> bypass e \<and> findSubscription (subscriptions (store st)) uid = Some (j, ssub)
        \<and> endDate ssub < now e"
  then show "\<not> canSend (snd (checkMessageLimit e (subscriptions (store st)) uid))"
    by (simp add: checkMessageLimit_def)
  from h have v: "\<not> fst (validateBothUsersSubscription e (subscriptions (store st)) uid (receiverId p))"
    by (auto simp: validateBothUsersSubscription_def split: option.splits)
  then show "fst (send_message e st sid uid p) = st" by (simp add: send_message_cases)
  from v show "snd (send_message e st sid uid p) = [Emit (ToSocket sid) (EvError ''validation_error'')]
             \<or> snd (send_message e st sid uid p)
                = [Validate, Emit (ToSocket sid) (EvError ''subscription_error'')]"
    by (simp add: send_message_cases)
next
  assume h: "\<forall>s \<in> set subs. userId s = u \<longrightarrow> endDate s < nw"
  then have "findOneIdx (\<lambda>s. userId s = u \<and> endDate s > nw) subs = None"
    by (intro findOneIdx_None) auto
  then show q: "ensureCallQuota nw subs u callType = QuotaDenied ''NO_SUBSCRIPTION''"
    by (simp add: ensureCallQuota_def getActiveSubscription_def findOne_def)
  then show "\<forall>remaining. startCallUsage nw subs u callType \<noteq> Usage200 remaining"
    by (simp add: startCallUsage_def)
qed

text \<open>
  The amended C5 at the example data, at time 2000.
\<close>

theorem expired_subscription_denied_witness:
  "\<not> bypass (exampleEnv\<lparr>now := 2000\<rparr>)
   \<and> findSubscription (subscriptions exampleDb) (reqFrom (exampleReq ''MSG1'')) = Some (0, exampleSub ''alice'')
   \<and> endDate (exampleSub ''alice'') < now (exampleEnv\<lparr>now := 2000\<rparr>)
   \<and> \<not> granted (snd (sendMessage (exampleEnv\<lparr>now := 2000\<rparr>) exampleDb (exampleReq ''MSG1'')))
   \<and> findSubscription (subscriptions (store (exampleServer exampleDb))) ''alice'' = Some (0, exampleSub ''alice'')
   \<and> \<not> canSend (snd (checkMessageLimit (exampleEnv\<lparr>now := 2000\<rparr>)
          (subscriptions (store (exampleServer exampleDb))) ''alice''))
   \<and> snd (send_message (exampleEnv\<lparr>now := 2000\<rparr>) (exampleServer exampleDb) ''s1'' ''alice'' examplePayload)
       = [Validate, Emit (ToSocket ''s1'') (EvError ''subscription_error'')]
   \<and> list_all (\<lambda>s. endDate s < 2000) (subscriptions exampleDb)
   \<and> ensureCallQuota 2000 (subscriptions exampleDb) ''alice'' ''audio'' = QuotaDenied ''NO_SUBSCRIPTION''
   \<and> startCallUsage 2000 (subscriptions exampleDb) ''alice'' ''audio'' = Usage403 ''NO_SUBSCRIPTION''"
proof -
  have h1: "\<not> bypass (exampleEnv\<lparr>now := 2000\<rparr>)
   \<and> findSubscription (subscriptions exampleDb) (reqFrom (exampleReq ''MSG1'')) = Some (0, exampleSub ''alice'')
   \<and> endDate (exampleSub ''alice'') < now (exampleEnv\<lparr>now := 2000\<rparr>)"
    by (simp add: example_defs findSubscription_def findOne_def)
  have h2: "\<not> bypass (exampleEnv\<lparr>now := 2000\<rparr>)
   \<and> findSubscription (subscriptions (store (exampleServer exampleDb))) ''alice'' = Some (0, exampleSub ''alice'')
   \<and> endDate (exampleSub ''alice'') < now (exampleEnv\<lparr>now := 2000\<rparr>)"
    by (simp add: example_defs findSubscription_def findOne_def)
  have h3: "\<forall>s \<in> set (subscriptions exampleDb). userId s = ''alice'' \<longrightarrow> endDate s < 2000"
    by (simp add: example_defs)
  have h3': "list_all (\<lambda>s. endDate s < 2000) (subscriptions exampleDb)"
    by (simp add: example_defs)
  have e1: "snd (send_message (exampleEnv\<lparr>now := 2000\<rparr>) (exampleServer exampleDb) ''s1'' ''alice'' examplePayload)
       = [Validate, Emit (ToSocket ''s1'') (EvError ''subscription_error'')]"
    by (simp add: example_defs socket_defs)
  have e2: "startCallUsage 2000 (subscriptions exampleDb) ''alice'' ''audio'' = Usage403 ''NO_SUBSCRIPTION''"
    by (simp add: example_defs startCallUsage_def validCallType_def ensureCallQuota_def
          getActiveSubscription_def findOne_def)
  from expired_subscription_denied[where e = "exampleEnv\<lparr>now := 2000\<rparr>" and d = exampleDb
      and r = "exampleReq ''MSG1''" and i = 0 and sub = "exampleSub ''alice''"
      and st = "exampleServer exampleDb" and uid = "''alice''" and j = 0 and ssub = "exampleSub ''alice''"
      and sid = "''s1''" and p = examplePayload and subs = "subscriptions exampleDb"
      and u = "''alice''" and nw = 2000 and callType = "''audio''"]
    h1 h2 h3 h3' e1 e2
  show ?thesis by blast
qed

subsection \<open>C6: Total-period allowance on both send paths\<close>

text \<open>
  C6 at a failing input. The sender has used the one message that \<open>messagesAllowed\<close>
  grants. The HTTP path compares \<open>messagesUsedTotal\<close> with \<open>messagesAllowed\<close> and
  denies. The socket path's checkMessageLimit looks for a daily limit of the plan,
  \<open>messagesPerDay\<close>, instead: the plan has none, the check answers
  "Unlimited messages", the message is sent and \<open>messagesUsedTotal\<close> becomes 2 of 1.
\<close>

theorem socket_check_ignores_total_allowance:
  "map messagesAllowed (subscriptions exhaustedDb) = [Some 1, Some 1]
   \<and> map messagesUsedTotal (subscriptions exhaustedDb) = [1, 0]
   \<and> snd (sendMessage exampleEnv exhaustedDb (exampleReq ''MSG1''))
       = Status403 ''Message limit exceeded for this subscription period''
   \<and> snd (checkMessageLimit exampleEnv (subscriptions exhaustedDb) ''alice'') = UnlimitedMessages
   \<and> snd (send_message exampleEnv (exampleServer exhaustedDb) ''s1'' ''alice'' examplePayload)
       = [Validate, CheckLimit, Debit, Persist,
          Emit (ToSocket ''s1'') (EvMessageSent (messageObj ''alice'' examplePayload)),
          Emit (ToRoomExcept ''chat_alice_bob'' ''s1'') (EvNewMessage (messageObj ''alice'' examplePayload))]
   \<and> map messagesUsedTotal (subscriptions (store (fst (send_message exampleEnv
        (exampleServer exhaustedDb) ''s1'' ''alice'' examplePayload)))) = [2, 0]"
  by (simp add: example_defs example_defs2 http_defs socket_only_defs generateRoomId_def sort2_def Let_def)

text \<open>
  Read off the evaluation above: the same exhausted subscription may send on the socket
  path and is refused on the HTTP path.
\<close>

theorem socket_check_ignores_total_allowance_witness:
  "canSend (snd (checkMessageLimit exampleEnv (subscriptions exhaustedDb) ''alice''))
   \<and> \<not> granted (snd (sendMessage exampleEnv exhaustedDb (exampleReq ''MSG1'')))
   \<and> Persist \<in> set (snd (send_message exampleEnv (exampleServer exhaustedDb) ''s1'' ''alice''
         examplePayload))"
  using socket_check_ignores_total_allowance by (simp add: granted_def)

subsection \<open>C7: Null and zero allowances\<close>

text \<open>
  C7, as stated, fails for calls: an audio allowance of \<open>null\<close> is read as 0
  (\<open>sub.audioTimeAllowed ?? 0\<close>) and the call-start check denies.
\<close>

theorem null_call_allowance_denied_counterexample:
  "ensureCallQuota 500 [(exampleSub ''alice'')\<lparr>audioTimeAllowed := None\<rparr>] ''alice'' ''audio''
     = QuotaDenied ''AUDIO_LIMIT_REACHED''
   \<and> startCallUsage 500 [(exampleSub ''alice'')\<lparr>audioTimeAllowed := None\<rparr>] ''alice'' ''audio''
     = Usage403 ''AUDIO_LIMIT_REACHED''"
  by (simp add: example_defs startCallUsage_def validCallType_def ensureCallQuota_def
        getActiveSubscription_def findOne_def orZero_def)

text \<open>
  C7, amended. On the HTTP send path, with the bypass flag off, both subscriptions
  active and the persistence succeeding, a \<open>messagesAllowed\<close> of \<open>null\<close> grants the
  send whatever the usage is, and a \<open>messagesAllowed\<close> of 0 denies it (usage being
  non-negative) and changes nothing. For audio and video seconds the call-start check
  denies both for an allowance of \<open>null\<close> and for an allowance of 0.
\<close>

theorem null_and_zero_allowance:
  "(\<not> bypass e \<and> chatSaveOk e \<and> reqTo r \<noteq> [] \<and> trim (reqMessage r) \<noteq> []
      \<and> fst (validateBothUsersSubscription_http e (subscriptions d) (reqFrom r) (reqTo r))
      \<and> findSubscription (subscriptions d) (reqFrom r) = Some (i, sub)
    \<longrightarrow> (messagesAllowed sub = None \<longrightarrow> granted (snd (sendMessage e d r)))
        \<and> (messagesAllowed sub = Some 0 \<and> 0 \<le> messagesUsedTotal sub
           \<longrightarrow> snd (sendMessage e d r) = Status403 ''Message limit exceeded for this subscription period''
               \<and> fst (sendMessage e d r) = d))
   \<and> (validCallType callType \<and> getActiveSubscription nw subs u = Some csub
        \<and> (allowedSeconds callType csub = None \<or> allowedSeconds callType csub = Some 0)
        \<and> 0 \<le> usedSeconds callType csub
      \<longrightarrow> startCallUsage nw subs u callType
          = Usage403 (if callType = ''audio'' then ''AUDIO_LIMIT_REACHED'' else ''VIDEO_LIMIT_REACHED''))"
proof (intro conjI impI)
  assume h: "\<not> bypass e \<and> chatSaveOk e \<and> reqTo r \<noteq> [] \<and> trim (reqMessage r) \<noteq> []
      \<and> fst (validateBothUsersSubscription_http e (subscriptions d) (reqFrom r) (reqTo r))
      \<and> findSubscription (subscriptions d) (reqFrom r) = Some (i, sub)"
  then have live: "\<not> now e > endDate sub" by (auto dest: validate_http_sender)
  { assume "messagesAllowed sub = None"
    with h live have "sendMessage_check e d r = Inr (i, sub, None)"
      by (simp add: sendMessage_check_def remainingOf_def)
    with h show "granted (snd (sendMessage e d r))"
      by (simp add: sendMessage_def persistMessage_def Let_def granted_def split: prod.splits) }
  { assume z: "messagesAllowed sub = Some 0 \<and> 0 \<le> messagesUsedTotal sub"
    with h live have c: "sendMessage_check e d r
        = Inl (Status403 ''Message limit exceeded for this subscription period'')"
      by (simp add: sendMessage_check_def remainingOf_def)
    then show "snd (sendMessage e d r) = Status403 ''Message limit exceeded for this subscription period''"
      by (simp add: sendMessage_def)
    from c show "fst (sendMessage e d r) = d" by (simp add: sendMessage_def) }
next
  assume "validCallType callType \<and> getActiveSubscription nw subs u = Some csub
        \<and> (allowedSeconds callType csub = None \<or> allowedSeconds callType csub = Some 0)
        \<and> 0 \<le> usedSeconds callType csub"
  then show "startCallUsage nw subs u callType
          = Usage403 (if callType = ''audio'' then ''AUDIO_LIMIT_REACHED'' else ''VIDEO_LIMIT_REACHED'')"
    by (auto simp: startCallUsage_def ensureCallQuota_def allowedSeconds_def usedSeconds_def
          orZero_def Let_def split: if_splits)
qed

text \<open>
  The amended C7 at the example data: unlimited messages with 1000 used are granted, a
  message allowance of 0 is denied, a video allowance of 0 and an audio allowance of
  \<open>null\<close> are both denied.
\<close>

theorem null_and_zero_allowance_witness:
  "\<not> bypass exampleEnv \<and> chatSaveOk exampleEnv \<and> reqTo (exampleReq ''MSG1'') \<noteq> []
   \<and> trim (reqMessage (exampleReq ''MSG1'')) \<noteq> []
   \<and> fst (validateBothUsersSubscription_http exampleEnv
        [(exampleSub ''alice'')\<lparr>messagesAllowed := None, messagesUsedTotal := 1000\<rparr>, exampleSub ''bob'']
        ''alice'' ''bob'')
   \<and> granted (snd (sendMessage exampleEnv
        \<lparr>subscriptions = [(exampleSub ''alice'')\<lparr>messagesAllowed := None, messagesUsedTotal := 1000\<rparr>,
                           exampleSub ''bob''], chats = []\<rparr> (exampleReq ''MSG1'')))
   \<and> fst (validateBothUsersSubscription_http exampleEnv
        [(exampleSub ''alice'')\<lparr>messagesAllowed := Some 0\<rparr>, exampleSub ''bob''] ''alice'' ''bob'')
   \<and> snd (sendMessage exampleEnv
        \<lparr>subscriptions = [(exampleSub ''alice'')\<lparr>messagesAllowed := Some 0\<rparr>, exampleSub ''bob''],
          chats = []\<rparr> (exampleReq ''MSG1''))
       = Status403 ''Message limit exceeded for this subscription period''
   \<and> validCallType ''video''
   \<and> getActiveSubscription 500 [exampleSub ''alice''] ''alice'' = Some (exampleSub ''alice'')
   \<and> allowedSeconds ''video'' (exampleSub ''alice'') = Some 0
   \<and> startCallUsage 500 [exampleSub ''alice''] ''alice'' ''video'' = Usage403 ''VIDEO_LIMIT_REACHED''
   \<and> validCallType ''audio''
   \<and> getActiveSubscription 500 [(exampleSub ''alice'')\<lparr>audioTimeAllowed := None\<rparr>] ''alice''
       = Some ((exampleSub ''alice'')\<lparr>audioTimeAllowed := None\<rparr>)
   \<and> allowedSeconds ''audio'' ((exampleSub ''alice'')\<lparr>audioTimeAllowed := None\<rparr>) = None
   \<and> startCallUsage 500 [(exampleSub ''alice'')\<lparr>audioTimeAllowed := None\<rparr>] ''alice'' ''audio''
       = Usage403 ''AUDIO_LIMIT_REACHED''"
proof -
  let ?sub = "(exampleSub ''alice'')\<lparr>messagesAllowed := None, messagesUsedTotal := 1000\<rparr>"
  let ?d = "\<lparr>subscriptions = [?sub, exampleSub ''bob''], chats = []\<rparr>"
  let ?zsub = "(exampleSub ''alice'')\<lparr>messagesAllowed := Some 0\<rparr>"
  let ?zd = "\<lparr>subscriptions = [?zsub, exampleSub ''bob''], chats = []\<rparr>"
  let ?asub = "(exampleSub ''alice'')\<lparr>audioTimeAllowed := None\<rparr>"
  have h1: "\<not> bypass exampleEnv \<and> chatSaveOk exampleEnv \<and> reqTo (exampleReq ''MSG1'') \<noteq> []
      \<and> trim (reqMessage (exampleReq ''MSG1'')) \<noteq> []
      \<and> fst (validateBothUsersSubscription_http exampleEnv (subscriptions ?d)
            (reqFrom (exampleReq ''MSG1'')) (reqTo (exampleReq ''MSG1'')))
      \<and> findSubscription (subscriptions ?d) (reqFrom (exampleReq ''MSG1'')) = Some (0, ?sub)"
    by (simp add: example_defs http_defs)
  have n: "messagesAllowed ?sub = None" by simp
  have h1': "\<not> bypass exampleEnv \<and> chatSaveOk exampleEnv \<and> reqTo (exampleReq ''MSG1'') \<noteq> []
      \<and> trim (reqMessage (exampleReq ''MSG1'')) \<noteq> []
      \<and> fst (validateBothUsersSubscription_http exampleEnv (subscriptions ?zd)
            (reqFrom (exampleReq ''MSG1'')) (reqTo (exampleReq ''MSG1'')))
      \<and> findSubscription (subscriptions ?zd) (reqFrom (exampleReq ''MSG1'')) = Some (0, ?zsub)"
    by (simp add: example_defs http_defs)
  have z: "messagesAllowed ?zsub = Some 0 \<and> 0 \<le> messagesUsedTotal ?zsub"
    by (simp add: exampleSub_def)
  have h2: "validCallType ''video''
      \<and> getActiveSubscription 500 [exampleSub ''alice''] ''alice'' = Some (exampleSub ''alice'')
      \<and> (allowedSeconds ''video'' (exampleSub ''alice'') = None
          \<or> allowedSeconds ''video'' (exampleSub ''alice'') = Some 0)
      \<and> 0 \<le> usedSeconds ''video'' (exampleSub ''alice'')"
    by (simp add: example_defs validCallType_def getActiveSubscription_def findOne_def
          allowedSeconds_def usedSeconds_def)
  have a: "allowedSeconds ''video'' (exampleSub ''alice'') = Some 0"
    by (simp add: example_defs allowedSeconds_def)
  have h3: "validCallType ''audio''
      \<and> getActiveSubscription 500 [?asub] ''alice'' = Some ?asub
      \<and> (allowedSeconds ''audio'' ?asub = None \<or> allowedSeconds ''audio'' ?asub = Some 0)
      \<and> 0 \<le> usedSeconds ''audio'' ?asub"
    by (simp add: example_defs validCallType_def getActiveSubscription_def findOne_def
          allowedSeconds_def usedSeconds_def)
  have b: "allowedSeconds ''audio'' ?asub = None" by (simp add: allowedSeconds_def)
  from null_and_zero_allowance[where e = exampleEnv and d = ?d and r = "exampleReq ''MSG1''"
      and i = 0 and sub = ?sub and callType = "''video''" and nw = 500
      and subs = "[exampleSub ''alice'']" and u = "''alice''" and csub = "exampleSub ''alice''"]
    null_and_zero_allowance[where e = exampleEnv and d = ?zd and r = "exampleReq ''MSG1''"
      and i = 0 and sub = ?zsub and callType = "''audio''" and nw = 500
      and subs = "[?asub]" and u = "''alice''" and csub = ?asub]
    h1 n h1' z h2 a h3 b
  show ?thesis by (simp add: exampleReq_def)
qed

subsection \<open>C8: Offline broadcasts\<close>

text \<open>
  C8, as stated, fails: a user connects, disconnects at time 1000 and reconnects at time
  2000, one second later; the run contains a \<open>user_offline\<close> broadcast for that user.
  The presence namespace broadcasts \<open>user_offline\<close> on the disconnection as well.
\<close>

theorem reconnect_within_grace_counterexample:
  "offlineBroadcasts ''alice'' (snd (chat_run (exampleServer exampleDb)
       [(0, Connect ''s1'' ''alice''), (1000, Disconnect ''s1'' ''alice''),
        (2000, Connect ''s2'' ''alice'')]))
     = [Emit (BroadcastExcept ''s1'') (EvUserOffline ''alice'')]
   \<and> snd (handleDisconnection (fst (handleConnection 0 \<lparr>pOnlineUsers = [], pUserSockets = []\<rparr>
        ''s1'' ''alice'')) ''s1'' ''alice'') = [Emit ToAll (EvUserOffline ''alice'')]"
  by (simp add: exampleServer_def presence_defs)

text \<open>
  C8, amended. The offline broadcast is not delayed. In the chat namespace the
  disconnect of a user who has an entry in \<open>onlineUsers\<close> broadcasts \<open>user_offline\<close> at
  once, marks the entry offline with the time of the disconnect, and defers only the
  removal of the entry, by 30000 ms. In the presence namespace, when the last socket of an
  online user closes, the user is removed and \<open>user_offline\<close> is broadcast at once.
\<close>

theorem offline_broadcast_immediate:
  "(mapGet (onlineUsers st) uid = Some entry
      \<longrightarrow> snd (disconnect nw st sid uid) = [Emit (BroadcastExcept sid) (EvUserOffline uid)]
          \<and> mapGet (onlineUsers (fst (disconnect nw st sid uid))) uid
              = Some (entry\<lparr>isOnline := False, lastSeen := nw\<rparr>)
          \<and> timers (fst (disconnect nw st sid uid)) = timers st @ [(nw + 30000, uid)])
   \<and> (mapGet (pUserSockets ns) uid = Some [sid] \<and> mapHas (pOnlineUsers ns) uid
      \<longrightarrow> snd (handleDisconnection ns sid uid) = [Emit ToAll (EvUserOffline uid)]
          \<and> \<not> mapHas (pOnlineUsers (fst (handleDisconnection ns sid uid))) uid)"
  by (auto simp: disconnect_def handleDisconnection_def mapGet_mapSet mapHas_mapDelete)

text \<open>
  The amended C8 at the example data: a user who connected at time 0 disconnects at time
  1000.
\<close>

theorem offline_broadcast_immediate_witness:
  "mapGet (onlineUsers (fst (connection 0 (exampleServer exampleDb) ''s1'' ''alice''))) ''alice''
     = Some \<lparr>socketId = ''s1'', isOnline = True, lastSeen = 0\<rparr>
   \<and> snd (disconnect 1000 (fst (connection 0 (exampleServer exampleDb) ''s1'' ''alice'')) ''s1'' ''alice'')
     = [Emit (BroadcastExcept ''s1'') (EvUserOffline ''alice'')]
   \<and> timers (fst (disconnect 1000 (fst (connection 0 (exampleServer exampleDb) ''s1'' ''alice''))
        ''s1'' ''alice'')) = [(31000, ''alice'')]
   \<and> mapGet (pUserSockets \<lparr>pOnlineUsers = [(''alice'', 0)], pUserSockets = [(''alice'', [''s1''])]\<rparr>)
        ''alice'' = Some [''s1'']
   \<and> mapHas (pOnlineUsers \<lparr>pOnlineUsers = [(''alice'', 0)], pUserSockets = [(''alice'', [''s1''])]\<rparr>)
        ''alice''
   \<and> snd (handleDisconnection \<lparr>pOnlineUsers = [(''alice'', 0)], pUserSockets = [(''alice'', [''s1''])]\<rparr>
        ''s1'' ''alice'') = [Emit ToAll (EvUserOffline ''alice'')]"
proof -
  let ?st = "fst (connection 0 (exampleServer exampleDb) ''s1'' ''alice'')"
  let ?ns = "\<lparr>pOnlineUsers = [(''alice'', 0::int)], pUserSockets = [(''alice'', [''s1''])]\<rparr>"
  have h1: "mapGet (onlineUsers ?st) ''alice'' = Some \<lparr>socketId = ''s1'', isOnline = True, lastSeen = 0\<rparr>"
    by (simp add: exampleServer_def connection_def mapGet_def mapHas_def)
  have t: "timers ?st = []" by (simp add: exampleServer_def connection_def mapGet_def mapHas_def)
  have h2: "mapGet (pUserSockets ?ns) ''alice'' = Some [''s1''] \<and> mapHas (pOnlineUsers ?ns) ''alice''"
    by (simp add: mapGet_def mapHas_def)
  from offline_broadcast_immediate[where st = ?st and uid = "''alice''" and nw = 1000
      and entry = "\<lparr>socketId = ''s1'', isOnline = True, lastSeen = 0\<rparr>" and sid = "''s1''"
      and ns = ?ns] h1 h2 t
  show ?thesis by simp
qed

subsection \<open>C9: Room identifiers\<close>

text \<open>
  C9. For all user ids \<open>a\<close> and \<open>b\<close> the room id does not depend on the order of the
  two ids: \<open>generateRoomId a b = generateRoomId b a\<close>.
\<close>

theorem generateRoomId_commute: "generateRoomId a b = generateRoomId b a"
proof (cases a b rule: linorder_cases)
  case less
  then show ?thesis by (auto simp: generateRoomId_def sort2_def)
next
  case equal
  then show ?thesis by simp
next
  case greater
  then show ?thesis by (auto simp: generateRoomId_def sort2_def)
qed

subsection \<open>C10: Read receipts\<close>



end
